theory Spec2Isabelle
  imports Main
begin

section \<open>The outside world: library calls, replies and traces\<close>

text \<open>
  \<^verbatim>\<open>main.py\<close> is a script around the netmiko library: every interesting step is a call
  into netmiko, the logging module, the clock or the file system. Each such call is a
  value of \<open>call\<close>; what came back is a \<open>reply\<close>; a run is the chronological list of
  both. The behaviour of the outside world is a parameter \<open>w\<close>: given everything that
  happened so far and the call being made, it says whether the call returns (and what)
  or raises. Nothing is assumed about \<open>w\<close>.
\<close>

datatype call =
    ConnectHandler string string string string
      \<comment> \<open>\<^verbatim>\<open>ConnectHandler(device_type=, host=, username=, password=)\<close>\<close>
  | FindPrompt            \<comment> \<open>\<^verbatim>\<open>net_connect.find_prompt()\<close>\<close>
  | WriteChannel string   \<comment> \<open>\<^verbatim>\<open>net_connect.write_channel(text)\<close>\<close>
  | Sleep nat             \<comment> \<open>\<^verbatim>\<open>time.sleep(seconds)\<close>\<close>
  | ReadChannel           \<comment> \<open>\<^verbatim>\<open>net_connect.read_channel()\<close>\<close>
  | Redispatch string     \<comment> \<open>\<^verbatim>\<open>redispatch(net_connect, device_type=)\<close>\<close>
  | SendCommand string    \<comment> \<open>\<^verbatim>\<open>net_connect.send_command(command)\<close>\<close>
  | Disconnect            \<comment> \<open>\<^verbatim>\<open>net_connect.disconnect()\<close>\<close>
  | LogDebug string       \<comment> \<open>\<^verbatim>\<open>logging.debug(message)\<close>\<close>
  | LogInfo string        \<comment> \<open>\<^verbatim>\<open>logging.info(message)\<close>\<close>
  | Strftime string       \<comment> \<open>\<^verbatim>\<open>time.strftime(format)\<close>\<close>
  | OpenFile string string  \<comment> \<open>\<^verbatim>\<open>open(filename, mode)\<close>\<close>
  | WriteFile string      \<comment> \<open>\<^verbatim>\<open>f.write(text)\<close>\<close>
  | CloseFile             \<comment> \<open>leaving the \<^verbatim>\<open>with\<close> block closes the file\<close>

datatype reply =
    Returns string   \<comment> \<open>the call returned; the text is its value (empty for \<^verbatim>\<open>None\<close>)\<close>
  | Raises string    \<comment> \<open>the call raised the exception of this name\<close>

type_synonym trace = "(call \<times> reply) list"

type_synonym world = "trace \<Rightarrow> call \<Rightarrow> reply"

datatype exn =
    KeyError string   \<comment> \<open>subscripting a dict with a key it does not have\<close>
  | Raised string     \<comment> \<open>an exception raised by a library call\<close>

text \<open>
  A Python statement sequence is a function from the trace so far to a result and the
  extended trace; an exception ends the sequence where it is raised, since the script
  has no \<^verbatim>\<open>try\<close> statement.
\<close>

type_synonym 'a io = "trace \<Rightarrow> (exn + 'a) \<times> trace"

definition io_return :: "'a \<Rightarrow> 'a io" where
  "io_return x = (\<lambda>t. (Inr x, t))"

definition io_raise :: "exn \<Rightarrow> 'a io" where
  "io_raise e = (\<lambda>t. (Inl e, t))"

definition io_bind :: "'a io \<Rightarrow> ('a \<Rightarrow> 'b io) \<Rightarrow> 'b io" where
  "io_bind m f = (\<lambda>t. case m t of (Inl e, t') \<Rightarrow> (Inl e, t') | (Inr x, t') \<Rightarrow> f x t')"

text \<open>\<^verbatim>\<open>d[k]\<close> on a dict: the value, or KeyError.\<close>

definition getitem :: "(string \<rightharpoonup> 'v) \<Rightarrow> string \<Rightarrow> 'v io" where
  "getitem d k = (case d k of None \<Rightarrow> io_raise (KeyError k) | Some v \<Rightarrow> io_return v)"

text \<open>A library call that may raise: the world decides, the trace records call and reply.\<close>

definition perform :: "world \<Rightarrow> call \<Rightarrow> string io" where
  "perform w c = (\<lambda>t. case w t c of
      Raises x \<Rightarrow> (Inl (Raised x), t @ [(c, Raises x)])
    | Returns s \<Rightarrow> (Inr s, t @ [(c, Returns s)]))"

text \<open>\<^verbatim>\<open>logging.debug\<close>, \<^verbatim>\<open>logging.info\<close> and \<^verbatim>\<open>time.sleep\<close> return \<^verbatim>\<open>None\<close> and do not raise.\<close>

definition emit :: "call \<Rightarrow> unit io" where
  "emit c = (\<lambda>t. (Inr (), t @ [(c, Returns [])]))"

section \<open>Substring test\<close>

text \<open>Python's \<^verbatim>\<open>x in output\<close> on two strings: \<open>x\<close> occurs in \<open>output\<close> as a contiguous substring.\<close>

fun startswith :: "string \<Rightarrow> string \<Rightarrow> bool" where
  "startswith s [] = True"
| "startswith [] (x # xs) = False"
| "startswith (c # s) (x # xs) = (c = x \<and> startswith s xs)"

fun str_in :: "string \<Rightarrow> string \<Rightarrow> bool" where
  "str_in x [] = (x = [])"
| "str_in x (c # cs) = (startswith (c # cs) x \<or> str_in x cs)"

text \<open>Line 56: \<^verbatim>\<open>any(x in output for x in ['password', 'Password'])\<close>.\<close>

definition password_prompt :: "string \<Rightarrow> bool" where
  "password_prompt output = list_ex (\<lambda>x. str_in x output) [''password'', ''Password'']"

section \<open>get_device_info\<close>

type_synonym pydict = "string \<rightharpoonup> string"

text \<open>
  The body of \<^verbatim>\<open>get_device_info\<close> is straight-line code; it is cut here into its
  consecutive blocks, each with the source lines it stands for. A dict literal evaluates
  its values in order before the call that takes it, and an f-string evaluates its
  subscripts left to right.
\<close>

text \<open>Lines 43--52: log, build \<^verbatim>\<open>connect_params\<close> from the jump host's entries, connect, wait for the prompt, log.\<close>

definition open_jumphost :: "world \<Rightarrow> pydict \<Rightarrow> pydict \<Rightarrow> unit io" where
  "open_jumphost w device jumphost_params =
    io_bind (emit (LogDebug ''Jumphost parameters are filled so use jumphost to connect to device'')) (\<lambda>_.
    io_bind (getitem jumphost_params ''device_type'') (\<lambda>jt.
    io_bind (getitem jumphost_params ''host'') (\<lambda>jh.
    io_bind (getitem jumphost_params ''username'') (\<lambda>ju.
    io_bind (getitem jumphost_params ''password'') (\<lambda>jp.
    io_bind (perform w (ConnectHandler jt jh ju jp)) (\<lambda>_.
    io_bind (perform w FindPrompt) (\<lambda>_.
    io_bind (getitem jumphost_params ''host'') (\<lambda>jh'.
    io_bind (getitem device ''host'') (\<lambda>dh.
    emit (LogInfo (''Connected to jumphost '' @ jh' @ '' for device '' @ dh)))))))))))"

text \<open>Lines 53--55: type the ssh command into the jump host's shell, sleep one second, read the channel.\<close>

definition start_relay :: "world \<Rightarrow> pydict \<Rightarrow> pydict \<Rightarrow> string io" where
  "start_relay w device device_connect_credentials =
    io_bind (getitem device_connect_credentials ''username'') (\<lambda>du.
    io_bind (getitem device ''host'') (\<lambda>dh.
    io_bind (perform w (WriteChannel (''ssh '' @ du @ ''@'' @ dh @ ''\<newline>''))) (\<lambda>_.
    io_bind (emit (Sleep 1)) (\<lambda>_.
    perform w ReadChannel))))"

text \<open>Lines 56--58: answer a password prompt found in what was read.\<close>

definition answer_password_prompt :: "world \<Rightarrow> pydict \<Rightarrow> pydict \<Rightarrow> string \<Rightarrow> unit io" where
  "answer_password_prompt w device device_connect_credentials output =
    (if password_prompt output
     then
       io_bind (getitem device ''host'') (\<lambda>dh.
       io_bind (emit (LogInfo (''Connecting to device and found password prompt for '' @ dh))) (\<lambda>_.
       io_bind (getitem device_connect_credentials ''password'') (\<lambda>dp.
       io_bind (perform w (WriteChannel (dp @ ''\<newline>''))) (\<lambda>_.
       io_return ()))))
     else io_return ())"

text \<open>Lines 59--61: wait for the prompt, redispatch to the device's type, log.\<close>

definition rebind_profile :: "world \<Rightarrow> pydict \<Rightarrow> unit io" where
  "rebind_profile w device =
    io_bind (perform w FindPrompt) (\<lambda>_.
    io_bind (getitem device ''type'') (\<lambda>dt.
    io_bind (perform w (Redispatch dt)) (\<lambda>_.
    io_bind (getitem device ''host'') (\<lambda>dh.
    emit (LogInfo (''Connected and redispatched to device  '' @ dh))))))"

text \<open>Lines 43--61, the branch taken when \<^verbatim>\<open>jumphost_params['host']\<close> is truthy.\<close>

definition connect_via_jumphost :: "world \<Rightarrow> pydict \<Rightarrow> pydict \<Rightarrow> pydict \<Rightarrow> unit io" where
  "connect_via_jumphost w device jumphost_params device_connect_credentials =
    io_bind (open_jumphost w device jumphost_params) (\<lambda>_.
    io_bind (start_relay w device device_connect_credentials) (\<lambda>output.
    io_bind (answer_password_prompt w device device_connect_credentials output) (\<lambda>_.
    rebind_profile w device)))"

text \<open>Lines 64--73, the \<^verbatim>\<open>else\<close> branch.\<close>

definition connect_directly :: "world \<Rightarrow> pydict \<Rightarrow> pydict \<Rightarrow> unit io" where
  "connect_directly w device device_connect_credentials =
    io_bind (getitem device ''type'') (\<lambda>dt.
    io_bind (getitem device ''host'') (\<lambda>dh.
    io_bind (getitem device_connect_credentials ''username'') (\<lambda>du.
    io_bind (getitem device_connect_credentials ''password'') (\<lambda>dp.
    io_bind (perform w (ConnectHandler dt dh du dp)) (\<lambda>_.
    io_bind (perform w FindPrompt) (\<lambda>_.
    io_bind (getitem device ''host'') (\<lambda>dh'.
    emit (LogInfo (''Connected to device  '' @ dh')))))))))"

text \<open>Lines 76--77: each initial command is sent and its result dropped.\<close>

fun send_initial_commands :: "world \<Rightarrow> string list \<Rightarrow> unit io" where
  "send_initial_commands w [] t = (Inr (), t)"
| "send_initial_commands w (command # commands) t =
     (case perform w (SendCommand command) t of
        (Inl e, t') \<Rightarrow> (Inl e, t')
      | (Inr _, t') \<Rightarrow> send_initial_commands w commands t')"

text \<open>
  Lines 80--82: \<open>output\<close> is the list built so far. \<^verbatim>\<open>use_textfsm=False\<close> is netmiko's
  default, so the call is the same as for an initial command.
\<close>

fun send_show_commands :: "world \<Rightarrow> string list \<Rightarrow> string list \<Rightarrow> string list io" where
  "send_show_commands w [] output t = (Inr output, t)"
| "send_show_commands w (command # commands) output t =
     (case perform w (SendCommand command) t of
        (Inl e, t') \<Rightarrow> (Inl e, t')
      | (Inr s, t') \<Rightarrow> send_show_commands w commands (output @ [s]) t')"

text \<open>Lines 75--86: both command loops, the disconnect, the log line and the return.\<close>

definition run_commands :: "world \<Rightarrow> pydict \<Rightarrow> (string \<rightharpoonup> string list) \<Rightarrow> string list io" where
  "run_commands w device device_type_params =
    io_bind (getitem device_type_params ''initial_commands'') (\<lambda>initial_commands.
    io_bind (send_initial_commands w initial_commands) (\<lambda>_.
    io_bind (getitem device_type_params ''show_commands'') (\<lambda>show_commands.
    io_bind (send_show_commands w show_commands []) (\<lambda>output.
    io_bind (perform w Disconnect) (\<lambda>_.
    io_bind (getitem device ''host'') (\<lambda>dh.
    io_bind (emit (LogInfo (''Disconnected from '' @ dh))) (\<lambda>_.
    io_return output)))))))"

text \<open>Lines 42--86. A Python string is truthy when it is not empty.\<close>

definition get_device_info ::
  "world \<Rightarrow> pydict \<Rightarrow> (string \<rightharpoonup> string list) \<Rightarrow> pydict \<Rightarrow> pydict \<Rightarrow> string list io" where
  "get_device_info w device device_type_params jumphost_params device_connect_credentials =
    io_bind (getitem jumphost_params ''host'') (\<lambda>jh.
    io_bind (if jh \<noteq> []
             then connect_via_jumphost w device jumphost_params device_connect_credentials
             else connect_directly w device device_connect_credentials) (\<lambda>_.
    run_commands w device device_type_params))"

section \<open>The device loop of main\<close>

text \<open>Lines 126--127.\<close>

fun write_outputs :: "world \<Rightarrow> string list \<Rightarrow> unit io" where
  "write_outputs w [] t = (Inr (), t)"
| "write_outputs w (output # outputs) t =
     (case perform w (WriteFile output) t of
        (Inl e, t') \<Rightarrow> (Inl e, t')
      | (Inr _, t') \<Rightarrow> write_outputs w outputs t')"

text \<open>
  \<^verbatim>\<open>with open(...) as f: body\<close>: the file is closed when the body is left, also by an
  exception; the exception of the body goes on unless closing raises one itself.
\<close>

definition with_file :: "world \<Rightarrow> 'a io \<Rightarrow> 'a io" where
  "with_file w body = (\<lambda>t. case body t of
      (Inl e, t') \<Rightarrow> (case perform w CloseFile t' of
                       (Inl e', t'') \<Rightarrow> (Inl e', t'')
                     | (Inr _, t'') \<Rightarrow> (Inl e, t''))
    | (Inr x, t') \<Rightarrow> (case perform w CloseFile t' of
                       (Inl e', t'') \<Rightarrow> (Inl e', t'')
                     | (Inr _, t'') \<Rightarrow> (Inr x, t'')))"

text \<open>Lines 118--127, the body of \<^verbatim>\<open>for device in devices\<close>.\<close>

definition main_loop_body ::
  "world \<Rightarrow> (string \<rightharpoonup> (string \<rightharpoonup> string list)) \<Rightarrow> pydict \<Rightarrow> pydict \<Rightarrow> pydict \<Rightarrow> unit io" where
  "main_loop_body w device_type_parameters jumphost_params device_connect_credentials device =
    io_bind (getitem device ''type'') (\<lambda>dt.
    io_bind (getitem device_type_parameters dt) (\<lambda>device_type_params.
    io_bind (perform w (Strftime ''%Y-%m-%d_%H%M%S'')) (\<lambda>current_time.
    io_bind (getitem device ''hostname'') (\<lambda>hostname.
    io_bind (perform w (OpenFile (hostname @ ''_'' @ current_time @ ''.txt'') ''w'')) (\<lambda>_.
    with_file w
      (io_bind (get_device_info w device device_type_params jumphost_params
                  device_connect_credentials) (\<lambda>show_command_outputs.
       write_outputs w show_command_outputs)))))))"

text \<open>
  Lines 117--127. The parameters stand for what lines 90--114 load from the three
  configuration files.
\<close>

fun main_loop ::
  "world \<Rightarrow> (string \<rightharpoonup> (string \<rightharpoonup> string list)) \<Rightarrow> pydict \<Rightarrow> pydict \<Rightarrow> pydict list \<Rightarrow> unit io" where
  "main_loop w device_type_parameters jumphost_params device_connect_credentials [] t = (Inr (), t)"
| "main_loop w device_type_parameters jumphost_params device_connect_credentials (device # devices) t =
     (case main_loop_body w device_type_parameters jumphost_params device_connect_credentials device t of
        (Inl e, t') \<Rightarrow> (Inl e, t')
      | (Inr _, t') \<Rightarrow>
          main_loop w device_type_parameters jumphost_params device_connect_credentials devices t')"


section \<open>Reading a trace\<close>

definition calls :: "trace \<Rightarrow> call list" where
  "calls tr = map fst tr"

fun is_connect :: "call \<Rightarrow> bool" where
  "is_connect (ConnectHandler ty h u p) = True"
| "is_connect _ = False"

fun is_send :: "call \<Rightarrow> bool" where
  "is_send (SendCommand c) = True"
| "is_send _ = False"

fun is_redispatch :: "call \<Rightarrow> bool" where
  "is_redispatch (Redispatch ty) = True"
| "is_redispatch _ = False"

fun is_write :: "call \<Rightarrow> bool" where
  "is_write (WriteChannel s) = True"
| "is_write _ = False"



text \<open>
  The syntax profile of the session, read off the trace as netmiko keeps it: the
  \<^verbatim>\<open>device_type\<close> given to the last \<^verbatim>\<open>ConnectHandler\<close> that returned, replaced by the one given
  to the last \<^verbatim>\<open>redispatch\<close> that returned.
\<close>

fun is_log :: "call \<Rightarrow> bool" where
  "is_log (LogDebug s) = True"
| "is_log (LogInfo s) = True"
| "is_log _ = False"

fun profile_step :: "string option \<Rightarrow> call \<times> reply \<Rightarrow> string option" where
  "profile_step p (ConnectHandler ty h u pw, Returns s) = Some ty"
| "profile_step p (Redispatch ty, Returns s) = Some ty"
| "profile_step p e = p"

definition profile_of :: "trace \<Rightarrow> string option" where
  "profile_of tr = foldl profile_step None tr"

text \<open>
  \<open>commands_match_shell shell before tr\<close>: whenever \<open>tr\<close> (run after \<open>before\<close>) issues a
  \<^verbatim>\<open>send_command\<close>, the session's profile at that moment is the type of the shell at the other
  end of the channel. Which shell that is, is a fact of the world: \<open>shell\<close> gives it for
  every moment of the run.
\<close>

fun commands_match_shell :: "(trace \<Rightarrow> string) \<Rightarrow> trace \<Rightarrow> trace \<Rightarrow> bool" where
  "commands_match_shell shell before [] = True"
| "commands_match_shell shell before (e # es) =
     ((is_send (fst e) \<longrightarrow> profile_of before = Some (shell before))
      \<and> commands_match_shell shell (before @ [e]) es)"

text \<open>
  \<open>emits_only Q m\<close>: whatever the trace before, \<open>m\<close> only appends to it, and every call
  it appends satisfies \<open>Q\<close>.
\<close>

definition emits_only :: "(call \<Rightarrow> bool) \<Rightarrow> 'a io \<Rightarrow> bool" where
  "emits_only Q m \<longleftrightarrow> (\<forall>t. \<exists>tr. snd (m t) = t @ tr \<and> list_all Q (calls tr))"

text \<open>
  \<open>raise_is_final m\<close>: a call that raises inside \<open>m\<close> ends \<open>m\<close>, with that exception as
  its result.
\<close>

definition raise_is_final :: "'a io \<Rightarrow> bool" where
  "raise_is_final m \<longleftrightarrow>
     (\<forall>t. \<exists>tr. snd (m t) = t @ tr
         \<and> (\<forall>c x. (c, Raises x) \<in> set tr \<longrightarrow> fst (m t) = Inl (Raised x)))"

section \<open>Sample inputs\<close>

text \<open>
  The inventory entry, command lists and credentials of the spec's Scenario A, a jump
  host configuration, and the configuration without one (an empty \<^verbatim>\<open>host\<close>).
\<close>

definition example_device :: pydict where
  "example_device = [''host'' \<mapsto> ''10.0.0.1'', ''type'' \<mapsto> ''ios'', ''hostname'' \<mapsto> ''r1'']"

definition example_commands :: "string \<rightharpoonup> string list" where
  "example_commands = [''initial_commands'' \<mapsto> [''terminal length 0''],
                       ''show_commands'' \<mapsto> [''show version'', ''show ip int brief'']]"

definition example_credentials :: pydict where
  "example_credentials = [''username'' \<mapsto> ''admin'', ''password'' \<mapsto> ''secret'']"

definition example_jumphost :: pydict where
  "example_jumphost = [''host'' \<mapsto> ''jump'', ''device_type'' \<mapsto> ''linux'',
                       ''username'' \<mapsto> ''op'', ''password'' \<mapsto> ''pw'']"

definition no_jumphost :: pydict where
  "no_jumphost = [''host'' \<mapsto> [], ''device_type'' \<mapsto> [], ''username'' \<mapsto> [], ''password'' \<mapsto> []]"

text \<open>A world in which the jump host cannot be reached: every \<^verbatim>\<open>ConnectHandler\<close> to it times out.\<close>

definition world_jumphost_down :: world where
  "world_jumphost_down t c =
     (case c of
        ConnectHandler ty h u p \<Rightarrow>
          (if h = ''jump'' then Raises ''NetmikoTimeoutException'' else Returns [])
      | _ \<Rightarrow> Returns [])"

text \<open>
  A world in which every call succeeds: the relayed ssh client asks for a password and
  each command is answered with its own text in angle brackets.
\<close>

definition world_password_prompt :: world where
  "world_password_prompt t c =
     (case c of
        ReadChannel \<Rightarrow> Returns ''Password: ''
      | SendCommand s \<Rightarrow> Returns (''<'' @ s @ ''>'')
      | Strftime f \<Rightarrow> Returns ''2022-05-01_120000''
      | _ \<Rightarrow> Returns [])"

text \<open>The same, but \<^verbatim>\<open>show version\<close> runs into a read timeout.\<close>

definition world_command_fails :: world where
  "world_command_fails t c =
     (case c of
        SendCommand s \<Rightarrow> (if s = ''show version'' then Raises ''ReadTimeout'' else Returns (''<'' @ s @ ''>''))
      | Strftime f \<Rightarrow> Returns ''2022-05-01_120000''
      | _ \<Rightarrow> Returns [])"

text \<open>
  A world with key-based authentication: after the ssh command the channel shows the
  device's prompt and no password prompt.
\<close>

definition world_key_auth :: world where
  "world_key_auth t c =
     (case c of
        ReadChannel \<Rightarrow> Returns ''r1#''
      | SendCommand s \<Rightarrow> Returns (''<'' @ s @ ''>'')
      | _ \<Rightarrow> Returns [])"

text \<open>
  A world with a slow device: nothing has arrived when the channel is read, the password
  prompt shows up afterwards (\<^verbatim>\<open>find_prompt\<close> returns it as the prompt), and the redispatch
  times out.
\<close>

definition world_late_prompt :: world where
  "world_late_prompt t c =
     (case c of
        ReadChannel \<Rightarrow> Returns []
      | FindPrompt \<Rightarrow>
          (if ReadChannel \<in> set (calls t) then Returns ''Password: '' else Returns ''jump> '')
      | Redispatch ty \<Rightarrow> Raises ''NetmikoTimeoutException''
      | _ \<Rightarrow> Returns [])"

text \<open>
  A second inventory entry, the per-type command table, and a world in which the first
  device cannot be reached.
\<close>

definition second_device :: pydict where
  "second_device = [''host'' \<mapsto> ''10.0.0.2'', ''type'' \<mapsto> ''ios'', ''hostname'' \<mapsto> ''r2'']"

definition example_type_parameters :: "string \<rightharpoonup> (string \<rightharpoonup> string list)" where
  "example_type_parameters = [''ios'' \<mapsto> example_commands]"

definition world_first_device_down :: world where
  "world_first_device_down t c =
     (case c of
        ConnectHandler ty h u p \<Rightarrow>
          (if h = ''10.0.0.1'' then Raises ''NetmikoTimeoutException'' else Returns [])
      | SendCommand s \<Rightarrow> Returns (''<'' @ s @ ''>'')
      | Strftime f \<Rightarrow> Returns ''2022-05-01_120000''
      | _ \<Rightarrow> Returns [])"

text \<open>
  A world in which the relayed ssh is refused: the channel shows the refusal, the jump
  host's prompt comes back, \<^verbatim>\<open>find_prompt\<close> returns that prompt, and every command is answered
  by the jump host's shell. The session never leaves the jump host, so the shell at the
  other end is the jump host's (type \<^verbatim>\<open>linux\<close> in the sample configuration) at every moment.
\<close>

definition world_ssh_refused :: world where
  "world_ssh_refused t c =
     (case c of
        ReadChannel \<Rightarrow> Returns ''ssh: connect to host 10.0.0.1 port 22: Connection refused''
      | FindPrompt \<Rightarrow> Returns ''jump> ''
      | SendCommand s \<Rightarrow> Returns (''bash: '' @ s @ '': command not found'')
      | _ \<Rightarrow> Returns [])"

definition shell_when_ssh_refused :: "trace \<Rightarrow> string" where
  "shell_when_ssh_refused t = ''linux''"

section \<open>Proof tools\<close>

subsection \<open>Running the sequencing operators\<close>

lemma io_return_apply [simp]: "io_return x t = (Inr x, t)"
  by (simp add: io_return_def)

lemma io_raise_apply [simp]: "io_raise e t = (Inl e, t)"
  by (simp add: io_raise_def)

lemma emit_apply [simp]: "emit c t = (Inr (), t @ [(c, Returns [])])"
  by (simp add: emit_def)

lemma getitem_apply:
  "getitem d k t = (case d k of None \<Rightarrow> (Inl (KeyError k), t) | Some v \<Rightarrow> (Inr v, t))"
  by (simp add: getitem_def split: option.splits)

lemma perform_apply:
  "perform w c t =
     (case w t c of Raises x \<Rightarrow> (Inl (Raised x), t @ [(c, Raises x)])
                  | Returns s \<Rightarrow> (Inr s, t @ [(c, Returns s)]))"
  by (simp add: perform_def)

lemma io_bind_apply:
  "io_bind m f t = (case m t of (Inl e, t') \<Rightarrow> (Inl e, t') | (Inr x, t') \<Rightarrow> f x t')"
  by (simp add: io_bind_def)

lemma io_bind_cases:
  assumes "io_bind m f t = (r, t')"
  obtains (fails) e where "m t = (Inl e, t')" "r = Inl e"
        | (goes_on) x t1 where "m t = (Inr x, t1)" "f x t1 = (r, t')"
  using assms by (auto simp: io_bind_def split: prod.splits sum.splits)

lemma getitem_cases:
  assumes "getitem d k t = (r, t')"
  obtains (missing) "d k = None" "r = Inl (KeyError k)" "t' = t"
        | (found) v where "d k = Some v" "r = Inr v" "t' = t"
  using assms by (auto simp: getitem_apply split: option.splits)

lemma perform_cases:
  assumes "perform w c t = (r, t')"
  obtains (raises) x where "w t c = Raises x" "r = Inl (Raised x)" "t' = t @ [(c, Raises x)]"
        | (returns) s where "w t c = Returns s" "r = Inr s" "t' = t @ [(c, Returns s)]"
  using assms by (auto simp: perform_apply split: reply.splits)

lemma io_bind_return: "io_bind (io_return x) f t = f x t"
  by (simp add: io_bind_apply)

lemma io_bind_getitem:
  "io_bind (getitem d k) f t = (case d k of None \<Rightarrow> (Inl (KeyError k), t) | Some v \<Rightarrow> f v t)"
  by (simp add: io_bind_apply getitem_apply split: option.splits)

lemma io_bind_emit: "io_bind (emit c) f t = f () (t @ [(c, Returns [])])"
  by (simp add: io_bind_apply)

lemma io_bind_perform:
  "io_bind (perform w c) f t =
     (case w t c of Raises x \<Rightarrow> (Inl (Raised x), t @ [(c, Raises x)])
                  | Returns s \<Rightarrow> f s (t @ [(c, Returns s)]))"
  by (simp add: io_bind_apply perform_apply split: reply.splits)

lemmas io_simps =
  io_bind_return io_bind_getitem io_bind_emit io_bind_perform perform_apply getitem_apply

lemmas example_defs = example_device_def example_commands_def example_credentials_def
  example_jumphost_def no_jumphost_def

lemmas block_defs = get_device_info_def connect_via_jumphost_def open_jumphost_def start_relay_def
  answer_password_prompt_def rebind_profile_def connect_directly_def run_commands_def

subsection \<open>What a block can append\<close>

lemma emits_onlyD:
  assumes "emits_only Q m" "m t = (r, t')"
  obtains tr where "t' = t @ tr" "list_all Q (calls tr)"
  using assms unfolding emits_only_def by (metis snd_conv)

lemma emits_only_return: "emits_only Q (io_return x)"
  by (simp add: emits_only_def calls_def)

lemma emits_only_getitem: "emits_only Q (getitem d k)"
  by (simp add: emits_only_def calls_def getitem_apply split: option.splits)

lemma emits_only_emit: "Q c \<Longrightarrow> emits_only Q (emit c)"
  by (simp add: emits_only_def calls_def)

lemma emits_only_perform: "Q c \<Longrightarrow> emits_only Q (perform w c)"
  by (simp add: emits_only_def calls_def perform_apply split: reply.splits)

lemma emits_only_bind:
  assumes "emits_only Q m" "\<And>x. emits_only Q (f x)"
  shows "emits_only Q (io_bind m f)"
  unfolding emits_only_def
proof
  fix t
  obtain r t1 where m: "m t = (r, t1)" by (cases "m t")
  from emits_onlyD [OF assms(1) m] obtain tr1 where t1: "t1 = t @ tr1" "list_all Q (calls tr1)" .
  show "\<exists>tr. snd (io_bind m f t) = t @ tr \<and> list_all Q (calls tr)"
  proof (cases r)
    case (Inl e)
    with m t1 show ?thesis by (simp add: io_bind_apply)
  next
    case (Inr x)
    obtain r2 t2 where f: "f x t1 = (r2, t2)" by (cases "f x t1")
    from emits_onlyD [OF assms(2) f] obtain tr2 where "t2 = t1 @ tr2" "list_all Q (calls tr2)" .
    with Inr m t1 f show ?thesis by (simp add: io_bind_apply calls_def)
  qed
qed

lemma emits_only_if:
  "emits_only Q m \<Longrightarrow> emits_only Q n \<Longrightarrow> emits_only Q (if b then m else n)"
  by simp

lemmas emits_only_intros =
  emits_only_bind emits_only_return emits_only_getitem emits_only_emit emits_only_perform
  emits_only_if

lemma send_initial_commands_emits:
  assumes "\<And>c. is_send c \<Longrightarrow> Q c"
  shows "emits_only Q (send_initial_commands w cs)"
proof (induction cs)
  case Nil
  have nil: "send_initial_commands w [] = io_return ()" by (simp add: fun_eq_iff)
  show ?case unfolding nil by (rule emits_only_return)
next
  case (Cons c cs)
  have cons: "send_initial_commands w (c # cs) =
          io_bind (perform w (SendCommand c)) (\<lambda>_. send_initial_commands w cs)"
    by (simp add: fun_eq_iff io_bind_apply)
  show ?case unfolding cons
    by (intro emits_only_bind emits_only_perform assms Cons) simp
qed

lemma send_show_commands_emits:
  assumes "\<And>c. is_send c \<Longrightarrow> Q c"
  shows "emits_only Q (send_show_commands w cs out)"
proof (induction cs arbitrary: out)
  case Nil
  have nil: "send_show_commands w [] out = io_return out" by (simp add: fun_eq_iff)
  show ?case unfolding nil by (rule emits_only_return)
next
  case (Cons c cs)
  have cons: "send_show_commands w (c # cs) out =
          io_bind (perform w (SendCommand c)) (\<lambda>s. send_show_commands w cs (out @ [s]))"
    by (simp add: fun_eq_iff io_bind_apply)
  show ?case unfolding cons
    by (intro emits_only_bind emits_only_perform assms Cons) simp
qed

lemma open_jumphost_emits:
  assumes "\<And>s. Q (LogDebug s)" "\<And>s. Q (LogInfo s)" "\<And>a b c d. Q (ConnectHandler a b c d)" "Q FindPrompt"
  shows "emits_only Q (open_jumphost w device jh)"
  unfolding open_jumphost_def by (intro emits_only_intros assms)

lemma start_relay_emits:
  assumes "\<And>s. Q (WriteChannel s)" "\<And>n. Q (Sleep n)" "Q ReadChannel"
  shows "emits_only Q (start_relay w device cred)"
  unfolding start_relay_def by (intro emits_only_intros assms)

lemma answer_password_prompt_emits:
  assumes "\<And>s. Q (WriteChannel s)" "\<And>s. Q (LogInfo s)"
  shows "emits_only Q (answer_password_prompt w device cred out)"
  unfolding answer_password_prompt_def by (intro emits_only_intros assms)

lemma rebind_profile_emits:
  assumes "\<And>s. Q (Redispatch s)" "\<And>s. Q (LogInfo s)" "Q FindPrompt"
  shows "emits_only Q (rebind_profile w device)"
  unfolding rebind_profile_def by (intro emits_only_intros assms)

lemma connect_directly_emits:
  assumes "\<And>s. Q (LogInfo s)" "\<And>a b c d. Q (ConnectHandler a b c d)" "Q FindPrompt"
  shows "emits_only Q (connect_directly w device cred)"
  unfolding connect_directly_def by (intro emits_only_intros assms)

lemma run_commands_emits:
  assumes "\<And>c. is_send c \<Longrightarrow> Q c" "\<And>s. Q (LogInfo s)" "Q Disconnect"
  shows "emits_only Q (run_commands w device dtp)"
  unfolding run_commands_def
  by (intro emits_only_intros send_initial_commands_emits send_show_commands_emits assms)

subsection \<open>The first calls of a run\<close>

lemma connect_directly_shape:
  assumes "connect_directly w device cred t = (r, t')"
    and "device ''type'' = Some dt" "device ''host'' = Some dh"
    and "cred ''username'' = Some du" "cred ''password'' = Some dp"
  shows "\<exists>rep rest. t' = t @ (ConnectHandler dt dh du dp, rep) # rest
           \<and> list_all (\<lambda>c. \<not> is_connect c) (calls rest)"
  using assms unfolding connect_directly_def
  by (auto simp: io_simps calls_def split: reply.splits)

lemma open_jumphost_shape:
  assumes "open_jumphost w device jh t = (r, t')"
    and "jh ''device_type'' = Some jt" "jh ''host'' = Some jhh"
    and "jh ''username'' = Some ju" "jh ''password'' = Some jp"
  shows "\<exists>rep rest. t' = t @ (LogDebug ''Jumphost parameters are filled so use jumphost to connect to device'', Returns [])
                       # (ConnectHandler jt jhh ju jp, rep) # rest
           \<and> list_all (\<lambda>c. \<not> is_connect c) (calls rest)"
  using assms unfolding open_jumphost_def
  by (auto simp: io_simps calls_def split: reply.splits option.splits)

subsection \<open>The substring test decides the substring relation\<close>

lemma startswith_iff: "startswith s x \<longleftrightarrow> (\<exists>b. s = x @ b)"
  by (induction s x rule: startswith.induct) auto

lemma str_in_iff: "str_in x s \<longleftrightarrow> (\<exists>a b. s = a @ x @ b)"
proof (induction s)
  case Nil
  then show ?case by auto
next
  case (Cons c cs)
  show ?case
  proof
    assume "str_in x (c # cs)"
    then consider "startswith (c # cs) x" | "str_in x cs" by auto
    then show "\<exists>a b. c # cs = a @ x @ b"
    proof cases
      case 1
      then obtain b where "c # cs = x @ b" by (auto simp: startswith_iff)
      then have "c # cs = [] @ x @ b" by simp
      then show ?thesis by blast
    next
      case 2
      with Cons obtain a b where "cs = a @ x @ b" by blast
      then have "c # cs = (c # a) @ x @ b" by simp
      then show ?thesis by blast
    qed
  next
    assume "\<exists>a b. c # cs = a @ x @ b"
    then obtain a b where ab: "c # cs = a @ x @ b" by blast
    show "str_in x (c # cs)"
    proof (cases a)
      case Nil
      with ab have "startswith (c # cs) x" by (auto simp: startswith_iff)
      then show ?thesis by simp
    next
      case (Cons a0 as)
      with ab have "cs = as @ x @ b" by simp
      with Cons.IH have "str_in x cs" by blast
      then show ?thesis by simp
    qed
  qed
qed

lemma password_prompt_iff:
  "password_prompt output \<longleftrightarrow>
     (\<exists>a b. output = a @ ''password'' @ b) \<or> (\<exists>a b. output = a @ ''Password'' @ b)"
  by (simp add: password_prompt_def str_in_iff)

subsection \<open>Case rules\<close>

lemma get_device_info_cases:
  assumes "get_device_info w device dtp jh cred t = (res, t')"
  obtains (no_host) "jh ''host'' = None" "res = Inl (KeyError ''host'')" "t' = t"
    | (connect_fails) jhh e where "jh ''host'' = Some jhh" "res = Inl e"
        "(if jhh \<noteq> [] then connect_via_jumphost w device jh cred
          else connect_directly w device cred) t = (Inl e, t')"
    | (connected) jhh t1 where "jh ''host'' = Some jhh"
        "(if jhh \<noteq> [] then connect_via_jumphost w device jh cred
          else connect_directly w device cred) t = (Inr (), t1)"
        "run_commands w device dtp t1 = (res, t')"
proof (cases "jh ''host''")
  case None
  with assms have "res = Inl (KeyError ''host'')" "t' = t"
    by (simp_all add: get_device_info_def io_bind_getitem)
  with None show ?thesis by (rule no_host)
next
  case (Some jhh)
  with assms have "io_bind (if jhh \<noteq> [] then connect_via_jumphost w device jh cred
          else connect_directly w device cred) (\<lambda>_. run_commands w device dtp) t = (res, t')"
    by (simp add: get_device_info_def io_bind_getitem)
  then show ?thesis
  proof (cases rule: io_bind_cases)
    case (fails e)
    with Some show ?thesis by (intro connect_fails)
  next
    case (goes_on x t1)
    with Some show ?thesis by (intro connected [of jhh t1]) auto
  qed
qed

lemma connect_via_jumphost_cases:
  assumes "connect_via_jumphost w device jh cred t = (r, t')"
  obtains (open_fails) e where "open_jumphost w device jh t = (Inl e, t')" "r = Inl e"
    | (relay_fails) t1 e where "open_jumphost w device jh t = (Inr (), t1)"
        "start_relay w device cred t1 = (Inl e, t')" "r = Inl e"
    | (answer_fails) t1 out t2 e where "open_jumphost w device jh t = (Inr (), t1)"
        "start_relay w device cred t1 = (Inr out, t2)"
        "answer_password_prompt w device cred out t2 = (Inl e, t')" "r = Inl e"
    | (rebinds) t1 out t2 t3 where "open_jumphost w device jh t = (Inr (), t1)"
        "start_relay w device cred t1 = (Inr out, t2)"
        "answer_password_prompt w device cred out t2 = (Inr (), t3)"
        "rebind_profile w device t3 = (r, t')"
  using assms unfolding connect_via_jumphost_def
  by (elim io_bind_cases) auto

subsection \<open>What each block leaves in the trace\<close>

lemma open_jumphost_done:
  assumes "open_jumphost w device jh t = (Inr (), t')"
  shows "\<exists>jt jhh ju jp dh s1 s2.
           jh ''device_type'' = Some jt \<and> jh ''host'' = Some jhh \<and> jh ''username'' = Some ju
           \<and> jh ''password'' = Some jp \<and> device ''host'' = Some dh
           \<and> w (t @ [(LogDebug ''Jumphost parameters are filled so use jumphost to connect to device'', Returns [])])
                 (ConnectHandler jt jhh ju jp) = Returns s1
           \<and> t' = t @ [(LogDebug ''Jumphost parameters are filled so use jumphost to connect to device'', Returns []),
                        (ConnectHandler jt jhh ju jp, Returns s1), (FindPrompt, Returns s2),
                        (LogInfo (''Connected to jumphost '' @ jhh @ '' for device '' @ dh), Returns [])]"
  using assms unfolding open_jumphost_def
  by (auto simp: io_simps split: reply.splits option.splits)

lemma start_relay_done:
  assumes "start_relay w device cred t = (Inr output, t')"
  shows "\<exists>du dh s. cred ''username'' = Some du \<and> device ''host'' = Some dh
           \<and> t' = t @ [(WriteChannel (''ssh '' @ du @ ''@'' @ dh @ ''\<newline>''), Returns s),
                        (Sleep 1, Returns []), (ReadChannel, Returns output)]"
  using assms unfolding start_relay_def
  by (auto simp: io_simps split: reply.splits option.splits)

lemma start_relay_fails:
  assumes "start_relay w device cred t = (Inl e, t @ tr)"
  shows "(ReadChannel, Returns output) \<notin> set tr"
  using assms unfolding start_relay_def
  by (auto simp: io_simps split: reply.splits option.splits)

lemma connect_directly_done:
  assumes "connect_directly w device cred t = (Inr (), t')"
  shows "\<exists>dh. device ''host'' = Some dh"
  using assms unfolding connect_directly_def
  by (auto simp: io_simps split: reply.splits option.splits)

lemma send_initial_commands_done:
  "send_initial_commands w cs t = (Inr u, t') \<Longrightarrow>
     \<exists>rs. length rs = length cs \<and> t' = t @ zip (map SendCommand cs) (map Returns rs)"
proof (induction cs arbitrary: t)
  case Nil
  then show ?case by simp
next
  case (Cons c cs)
  from Cons.prems obtain s where s: "w t (SendCommand c) = Returns s"
    and rest: "send_initial_commands w cs (t @ [(SendCommand c, Returns s)]) = (Inr u, t')"
    by (auto simp: perform_apply split: reply.splits)
  from Cons.IH [OF rest] obtain rs where "length rs = length cs"
    "t' = (t @ [(SendCommand c, Returns s)]) @ zip (map SendCommand cs) (map Returns rs)" by blast
  then have "length (s # rs) = length (c # cs)
      \<and> t' = t @ zip (map SendCommand (c # cs)) (map Returns (s # rs))" by simp
  then show ?case by blast
qed

lemma send_show_commands_done:
  "send_show_commands w cs out t = (Inr outs, t') \<Longrightarrow>
     \<exists>rs. outs = out @ rs \<and> length rs = length cs
          \<and> t' = t @ zip (map SendCommand cs) (map Returns rs)"
proof (induction cs arbitrary: t out)
  case Nil
  then show ?case by simp
next
  case (Cons c cs)
  from Cons.prems obtain s where s: "w t (SendCommand c) = Returns s"
    and rest: "send_show_commands w cs (out @ [s]) (t @ [(SendCommand c, Returns s)]) = (Inr outs, t')"
    by (auto simp: perform_apply split: reply.splits)
  from Cons.IH [OF rest] obtain rs where "outs = (out @ [s]) @ rs" "length rs = length cs"
    "t' = (t @ [(SendCommand c, Returns s)]) @ zip (map SendCommand cs) (map Returns rs)" by blast
  then have "outs = out @ (s # rs) \<and> length (s # rs) = length (c # cs)
      \<and> t' = t @ zip (map SendCommand (c # cs)) (map Returns (s # rs))" by simp
  then show ?case by blast
qed

lemma run_commands_done:
  assumes "run_commands w device dtp t = (Inr outs, t')"
  shows "\<exists>ini shw rs s dh.
           dtp ''initial_commands'' = Some ini \<and> dtp ''show_commands'' = Some shw
           \<and> device ''host'' = Some dh \<and> length rs = length ini \<and> length outs = length shw
           \<and> t' = t @ zip (map SendCommand ini) (map Returns rs)
                     @ zip (map SendCommand shw) (map Returns outs)
                     @ [(Disconnect, Returns s), (LogInfo (''Disconnected from '' @ dh), Returns [])]"
proof -
  from assms obtain ini t1 shw out t2 s dh
    where ini: "dtp ''initial_commands'' = Some ini"
      and i: "send_initial_commands w ini t = (Inr (), t1)"
      and shw: "dtp ''show_commands'' = Some shw"
      and o: "send_show_commands w shw [] t1 = (Inr out, t2)"
      and d: "w t2 Disconnect = Returns s"
      and dh: "device ''host'' = Some dh"
      and fin: "outs = out" "t' = t2 @ [(Disconnect, Returns s), (LogInfo (''Disconnected from '' @ dh), Returns [])]"
    unfolding run_commands_def
    by (elim io_bind_cases getitem_cases perform_cases) auto
  from send_initial_commands_done [OF i] obtain rs
    where rs: "length rs = length ini" "t1 = t @ zip (map SendCommand ini) (map Returns rs)" by blast
  from send_show_commands_done [OF o]
  have "length out = length shw" "t2 = t1 @ zip (map SendCommand shw) (map Returns out)" by auto
  with ini shw dh rs fin show ?thesis by auto
qed

lemma run_commands_fails:
  assumes "run_commands w device dtp t = (Inl e, t')" "device ''host'' = Some dh"
  shows "\<exists>tr. t' = t @ tr
           \<and> (Disconnect \<notin> set (calls tr)
              \<or> (\<exists>pre x. tr = pre @ [(Disconnect, Raises x)] \<and> e = Raised x
                    \<and> Disconnect \<notin> set (calls pre)))"
proof -
  have sends: "emits_only is_send (io_bind (getitem dtp ''initial_commands'') (\<lambda>ini.
      io_bind (send_initial_commands w ini) (\<lambda>_.
      io_bind (getitem dtp ''show_commands'') (\<lambda>shw. send_show_commands w shw []))))"
    (is "emits_only _ ?loops")
    by (intro emits_only_intros send_initial_commands_emits send_show_commands_emits)
  have run: "run_commands w device dtp =
      io_bind ?loops (\<lambda>out.
      io_bind (perform w Disconnect) (\<lambda>_.
      io_bind (getitem device ''host'') (\<lambda>dh.
      io_bind (emit (LogInfo (''Disconnected from '' @ dh))) (\<lambda>_. io_return out))))"
    by (simp add: run_commands_def fun_eq_iff io_bind_apply split: prod.splits sum.splits)
  from assms(1) show ?thesis unfolding run
  proof (cases rule: io_bind_cases)
    case (fails e')
    from emits_onlyD [OF sends fails(1)] obtain tr where "t' = t @ tr" "list_all is_send (calls tr)" .
    then have "t' = t @ tr \<and> Disconnect \<notin> set (calls tr)" by (auto simp: list_all_iff)
    then show ?thesis by blast
  next
    case (goes_on out t1)
    from emits_onlyD [OF sends goes_on(1)] obtain pre where pre: "t1 = t @ pre" "list_all is_send (calls pre)" .
    then have nod: "Disconnect \<notin> set (calls pre)" by (auto simp: list_all_iff)
    from goes_on(2) assms(2) obtain x where "e = Raised x" "t' = t1 @ [(Disconnect, Raises x)]"
      by (auto simp: io_simps split: reply.splits)
    with pre nod have "t' = t @ (pre @ [(Disconnect, Raises x)]) \<and> e = Raised x \<and> Disconnect \<notin> set (calls pre)"
      by simp
    then show ?thesis by blast
  qed
qed

subsection \<open>The connection phase\<close>

lemma connect_via_jumphost_emits:
  assumes "\<And>s. Q (LogDebug s)" "\<And>s. Q (LogInfo s)" "\<And>a b c d. Q (ConnectHandler a b c d)"
    "Q FindPrompt" "\<And>s. Q (WriteChannel s)" "\<And>n. Q (Sleep n)" "Q ReadChannel"
    "\<And>s. Q (Redispatch s)"
  shows "emits_only Q (connect_via_jumphost w device jh cred)"
  unfolding connect_via_jumphost_def
  by (intro emits_only_bind open_jumphost_emits start_relay_emits answer_password_prompt_emits
        rebind_profile_emits assms)

lemma connect_via_jumphost_shape:
  assumes "connect_via_jumphost w device jh cred t = (r, t')"
    and "jh ''device_type'' = Some jt" "jh ''host'' = Some jhh"
    and "jh ''username'' = Some ju" "jh ''password'' = Some jp"
  shows "\<exists>rep rest. t' = t @ (LogDebug ''Jumphost parameters are filled so use jumphost to connect to device'', Returns [])
                       # (ConnectHandler jt jhh ju jp, rep) # rest
           \<and> list_all (\<lambda>c. \<not> is_connect c) (calls rest)"
proof -
  have after: "emits_only (\<lambda>c. \<not> is_connect c)
      (io_bind (start_relay w device cred) (\<lambda>out.
       io_bind (answer_password_prompt w device cred out) (\<lambda>_. rebind_profile w device)))"
    by (intro emits_only_bind start_relay_emits answer_password_prompt_emits rebind_profile_emits)
      simp_all
  from assms(1) show ?thesis unfolding connect_via_jumphost_def
  proof (cases rule: io_bind_cases)
    case (fails e)
    from open_jumphost_shape [OF fails(1) assms(2-5)] show ?thesis .
  next
    case (goes_on x t1)
    from open_jumphost_shape [OF goes_on(1) assms(2-5)] obtain rep rest1
      where 1: "t1 = t @ (LogDebug ''Jumphost parameters are filled so use jumphost to connect to device'', Returns [])
                       # (ConnectHandler jt jhh ju jp, rep) # rest1"
        "list_all (\<lambda>c. \<not> is_connect c) (calls rest1)" by blast
    from emits_onlyD [OF after goes_on(2)] obtain rest2
      where 2: "t' = t1 @ rest2" "list_all (\<lambda>c. \<not> is_connect c) (calls rest2)" .
    from 1 2 have "t' = t @ (LogDebug ''Jumphost parameters are filled so use jumphost to connect to device'', Returns [])
                       # (ConnectHandler jt jhh ju jp, rep) # (rest1 @ rest2)
        \<and> list_all (\<lambda>c. \<not> is_connect c) (calls (rest1 @ rest2))"
      by (simp add: calls_def)
    then show ?thesis by blast
  qed
qed

lemma no_connect_filter: "list_all (\<lambda>c. \<not> is_connect c) cs \<Longrightarrow> filter is_connect cs = []"
  by (simp add: list_all_iff filter_empty_conv)

lemma connect_phase_emits:
  assumes "\<And>s. Q (LogDebug s)" "\<And>s. Q (LogInfo s)" "\<And>a b c d. Q (ConnectHandler a b c d)"
    "Q FindPrompt" "\<And>s. Q (WriteChannel s)" "\<And>n. Q (Sleep n)" "Q ReadChannel"
    "\<And>s. Q (Redispatch s)"
  shows "emits_only Q (if jhh \<noteq> [] then connect_via_jumphost w device jh cred
                       else connect_directly w device cred)"
  by (intro emits_only_if connect_via_jumphost_emits connect_directly_emits assms)

lemma connect_phase_done:
  assumes "(if jhh \<noteq> [] then connect_via_jumphost w device jh cred
            else connect_directly w device cred) t = (Inr (), t1)"
  shows "\<exists>dh. device ''host'' = Some dh"
proof (cases "jhh \<noteq> []")
  case True
  with assms have "connect_via_jumphost w device jh cred t = (Inr (), t1)" by simp
  then show ?thesis
  proof (cases rule: connect_via_jumphost_cases)
    case (rebinds t1 out t2 t3)
    from open_jumphost_done [OF rebinds(1)] show ?thesis by blast
  qed simp_all
next
  case False
  with assms have "connect_directly w device cred t = (Inr (), t1)" by simp
  then show ?thesis by (rule connect_directly_done)
qed

lemma calls_zip_sends:
  "length rs = length cs \<Longrightarrow> calls (zip (map SendCommand cs) rs) = map SendCommand cs"
  by (simp add: calls_def)

lemma calls_append: "calls (xs @ ys) = calls xs @ calls ys"
  by (simp add: calls_def)

subsection \<open>The relayed call, block after block\<close>

lemma io_bind_assoc: "io_bind (io_bind m f) g = io_bind m (\<lambda>x. io_bind (f x) g)"
  by (auto simp: io_bind_def fun_eq_iff split: prod.splits sum.splits)

lemma relayed_call:
  assumes "jh ''host'' = Some jhh" "jhh \<noteq> []"
  shows "get_device_info w device dtp jh cred =
           io_bind (open_jumphost w device jh) (\<lambda>_.
           io_bind (start_relay w device cred) (\<lambda>out.
           io_bind (answer_password_prompt w device cred out) (\<lambda>_.
           io_bind (rebind_profile w device) (\<lambda>_.
           run_commands w device dtp))))"
  using assms
  by (simp add: get_device_info_def connect_via_jumphost_def io_bind_assoc fun_eq_iff
        io_bind_getitem)

lemma answer_password_prompt_cases:
  assumes "answer_password_prompt w device cred out t = (r, t')" "device ''host'' = Some dh"
  obtains (no_prompt) "\<not> password_prompt out" "t' = t" "r = Inr ()"
    | (no_password) "password_prompt out" "cred ''password'' = None"
        "t' = t @ [(LogInfo (''Connecting to device and found password prompt for '' @ dh), Returns [])]"
        "r = Inl (KeyError ''password'')"
    | (write_fails) dp x where "password_prompt out" "cred ''password'' = Some dp"
        "t' = t @ [(LogInfo (''Connecting to device and found password prompt for '' @ dh), Returns []),
                   (WriteChannel (dp @ ''\<newline>''), Raises x)]"
        "r = Inl (Raised x)"
    | (sent) dp s where "password_prompt out" "cred ''password'' = Some dp"
        "t' = t @ [(LogInfo (''Connecting to device and found password prompt for '' @ dh), Returns []),
                   (WriteChannel (dp @ ''\<newline>''), Returns s)]"
        "r = Inr ()"
  using assms unfolding answer_password_prompt_def
  by (auto simp: io_simps split: reply.splits option.splits if_splits)

lemma rebind_profile_cases:
  assumes "rebind_profile w device t = (r, t')"
  obtains (prompt_fails) x where "t' = t @ [(FindPrompt, Raises x)]" "r = Inl (Raised x)"
    | (no_type) s where "t' = t @ [(FindPrompt, Returns s)]" "r = Inl (KeyError ''type'')"
        "device ''type'' = None"
    | (rebind_fails) dt s x where "device ''type'' = Some dt"
        "t' = t @ [(FindPrompt, Returns s), (Redispatch dt, Raises x)]" "r = Inl (Raised x)"
    | (no_host) dt s s' where "device ''type'' = Some dt" "device ''host'' = None"
        "t' = t @ [(FindPrompt, Returns s), (Redispatch dt, Returns s')]" "r = Inl (KeyError ''host'')"
    | (rebound) dt s s' dh where "device ''type'' = Some dt" "device ''host'' = Some dh"
        "t' = t @ [(FindPrompt, Returns s), (Redispatch dt, Returns s'),
                   (LogInfo (''Connected and redispatched to device  '' @ dh), Returns [])]"
        "r = Inr ()"
  using assms unfolding rebind_profile_def
  by (auto simp: io_simps split: reply.splits option.splits)

lemma after_negotiation_starts:
  assumes "io_bind (rebind_profile w device) (\<lambda>_. run_commands w device dtp) t = (r, t')"
  shows "\<exists>rep rest. t' = t @ (FindPrompt, rep) # rest
           \<and> list_all (\<lambda>c. \<not> is_write c \<and> c \<noteq> ReadChannel) (calls rest)"
  using assms
proof (cases rule: io_bind_cases)
  case (fails e)
  from fails(1) show ?thesis
    by (cases rule: rebind_profile_cases) (simp_all add: calls_def)
next
  case (goes_on x t1)
  from goes_on(1) obtain rep rest1
    where 1: "t1 = t @ (FindPrompt, rep) # rest1"
      "list_all (\<lambda>c. \<not> is_write c \<and> c \<noteq> ReadChannel) (calls rest1)"
    by (cases rule: rebind_profile_cases) (simp_all add: calls_def)
  have "emits_only (\<lambda>c. \<not> is_write c \<and> c \<noteq> ReadChannel) (run_commands w device dtp)"
    by (intro run_commands_emits) (auto elim: is_send.elims)
  from emits_onlyD [OF this goes_on(2)] obtain rest2
    where 2: "t' = t1 @ rest2" "list_all (\<lambda>c. \<not> is_write c \<and> c \<noteq> ReadChannel) (calls rest2)" .
  from 1 2 have "t' = t @ (FindPrompt, rep) # (rest1 @ rest2)
      \<and> list_all (\<lambda>c. \<not> is_write c \<and> c \<noteq> ReadChannel) (calls (rest1 @ rest2))"
    by (simp add: calls_def)
  then show ?thesis by blast
qed

lemma no_write_filter:
  "list_all (\<lambda>c. \<not> is_write c \<and> c \<noteq> ReadChannel) cs \<Longrightarrow>
     filter is_write cs = [] \<and> ReadChannel \<notin> set cs"
  by (auto simp: list_all_iff filter_empty_conv)

lemma after_read_shape:
  assumes run: "io_bind (answer_password_prompt w device cred out) (\<lambda>_.
                io_bind (rebind_profile w device) (\<lambda>_. run_commands w device dtp)) t = (r, t')"
    and dh: "device ''host'' = Some dh"
  shows "\<exists>post. t' = t @ post \<and> ReadChannel \<notin> set (calls post)
           \<and> (if password_prompt out
               then (case cred ''password'' of
                       None \<Rightarrow> filter is_write (calls post) = [] \<and> r = Inl (KeyError ''password'')
                     | Some dp \<Rightarrow>
                         (\<exists>l rep post'. post = (LogInfo l, Returns []) # (WriteChannel (dp @ ''\<newline>''), rep) # post'
                            \<and> filter is_write (calls post') = []))
               else (\<exists>rep post'. post = (FindPrompt, rep) # post'
                       \<and> filter is_write (calls post') = []))"
  using run
proof (cases rule: io_bind_cases)
  case (fails e)
  from fails(1) dh fails(2) show ?thesis
    by (cases rule: answer_password_prompt_cases) (simp_all add: calls_def)
next
  case (goes_on x t1)
  from after_negotiation_starts [OF goes_on(2)] obtain rep rest
    where rest: "t' = t1 @ (FindPrompt, rep) # rest"
      "list_all (\<lambda>c. \<not> is_write c \<and> c \<noteq> ReadChannel) (calls rest)" by blast
  note nw = no_write_filter [OF rest(2)]
  show ?thesis
  proof (cases "password_prompt out")
    case False
    with goes_on(1) dh have "t1 = t"
      by (cases rule: answer_password_prompt_cases) simp_all
    with rest(1) nw False show ?thesis by (auto simp: calls_def)
  next
    case True
    with goes_on(1) dh obtain dp rep'
      where dp: "cred ''password'' = Some dp"
        and t1: "t1 = t @ [(LogInfo (''Connecting to device and found password prompt for '' @ dh), Returns []),
                          (WriteChannel (dp @ ''\<newline>''), rep')]"
      by (cases rule: answer_password_prompt_cases) simp_all
    let ?post' = "(FindPrompt, rep) # rest"
    from t1 rest(1) have "t' = t @ (LogInfo (''Connecting to device and found password prompt for '' @ dh), Returns [])
         # (WriteChannel (dp @ ''\<newline>''), rep') # ?post'" by simp
    moreover from nw have "filter is_write (calls ?post') = []" "ReadChannel \<notin> set (calls ?post')"
      by (simp_all add: calls_def)
    ultimately show ?thesis using True dp by (auto simp: calls_def)
  qed
qed

lemma open_jumphost_fails_no_read:
  assumes "open_jumphost w device jh t = (r, t @ tr)"
  shows "list_all (\<lambda>c. \<not> is_send c \<and> \<not> is_redispatch c \<and> \<not> is_write c \<and> c \<noteq> ReadChannel) (calls tr)"
proof -
  have "emits_only (\<lambda>c. \<not> is_send c \<and> \<not> is_redispatch c \<and> \<not> is_write c \<and> c \<noteq> ReadChannel)
          (open_jumphost w device jh)"
    by (intro open_jumphost_emits) simp_all
  from emits_onlyD [OF this assms] show ?thesis by auto
qed

lemma after_read_writes:
  assumes run: "io_bind (answer_password_prompt w device cred out) (\<lambda>_.
                io_bind (rebind_profile w device) (\<lambda>_. run_commands w device dtp)) t = (r, t')"
    and dh: "device ''host'' = Some dh"
  shows "\<exists>rest. t' = t @ rest \<and> ReadChannel \<notin> set (calls rest)
           \<and> filter is_write (calls rest) =
               (if password_prompt out
                then (case cred ''password'' of None \<Rightarrow> [] | Some dp \<Rightarrow> [WriteChannel (dp @ ''\<newline>'')])
                else [])"
proof -
  from after_read_shape [OF run dh] obtain post
    where "t' = t @ post" "ReadChannel \<notin> set (calls post)"
      "if password_prompt out
               then (case cred ''password'' of
                       None \<Rightarrow> filter is_write (calls post) = [] \<and> r = Inl (KeyError ''password'')
                     | Some dp \<Rightarrow>
                         (\<exists>l rep post'. post = (LogInfo l, Returns []) # (WriteChannel (dp @ ''\<newline>''), rep) # post'
                            \<and> filter is_write (calls post') = []))
               else (\<exists>rep post'. post = (FindPrompt, rep) # post'
                       \<and> filter is_write (calls post') = [])"
    by blast
  then have "t' = t @ post \<and> ReadChannel \<notin> set (calls post)
           \<and> filter is_write (calls post) =
               (if password_prompt out
                then (case cred ''password'' of None \<Rightarrow> [] | Some dp \<Rightarrow> [WriteChannel (dp @ ''\<newline>'')])
                else [])"
    by (auto simp: calls_def split: if_splits option.splits)
  then show ?thesis by blast
qed

lemma relayed_call_two_phases:
  assumes "jh ''host'' = Some jhh" "jhh \<noteq> []"
  shows "get_device_info w device dtp jh cred =
           io_bind (io_bind (open_jumphost w device jh) (\<lambda>_.
                    io_bind (start_relay w device cred) (\<lambda>out.
                    answer_password_prompt w device cred out))) (\<lambda>_.
           io_bind (rebind_profile w device) (\<lambda>_.
           run_commands w device dtp))"
  by (simp add: relayed_call [of jh jhh, OF assms] io_bind_assoc)

lemma negotiation_emits:
  "emits_only (\<lambda>c. \<not> is_redispatch c \<and> \<not> is_send c)
     (io_bind (open_jumphost w device jh) (\<lambda>_.
      io_bind (start_relay w device cred) (\<lambda>out.
      answer_password_prompt w device cred out)))"
  by (intro emits_only_bind open_jumphost_emits start_relay_emits answer_password_prompt_emits)
    simp_all

lemma negotiation_trace:
  assumes "io_bind (open_jumphost w device jh) (\<lambda>_.
           io_bind (start_relay w device cred) (\<lambda>out.
           answer_password_prompt w device cred out)) t = (Inr u, t')"
  shows "\<exists>jt jhh ju jp dh du s1 s2 s3 out ans.
           jh ''device_type'' = Some jt \<and> jh ''host'' = Some jhh \<and> jh ''username'' = Some ju
           \<and> jh ''password'' = Some jp \<and> device ''host'' = Some dh \<and> cred ''username'' = Some du
           \<and> t' = t @ [(LogDebug ''Jumphost parameters are filled so use jumphost to connect to device'', Returns []),
                        (ConnectHandler jt jhh ju jp, Returns s1), (FindPrompt, Returns s2),
                        (LogInfo (''Connected to jumphost '' @ jhh @ '' for device '' @ dh), Returns []),
                        (WriteChannel (''ssh '' @ du @ ''@'' @ dh @ ''\<newline>''), Returns s3),
                        (Sleep 1, Returns []), (ReadChannel, Returns out)] @ ans
           \<and> (if password_prompt out
               then (\<exists>dp s4. cred ''password'' = Some dp
                       \<and> ans = [(LogInfo (''Connecting to device and found password prompt for '' @ dh), Returns []),
                                (WriteChannel (dp @ ''\<newline>''), Returns s4)])
               else ans = [])"
proof -
  from assms obtain t1 out t2 where o: "open_jumphost w device jh t = (Inr (), t1)"
    and r: "start_relay w device cred t1 = (Inr out, t2)"
    and a: "answer_password_prompt w device cred out t2 = (Inr u, t')"
    by (elim io_bind_cases) auto
  from open_jumphost_done [OF o] obtain jt jhh ju jp dh s1 s2
    where keys: "jh ''device_type'' = Some jt" "jh ''host'' = Some jhh" "jh ''username'' = Some ju"
      "jh ''password'' = Some jp" "device ''host'' = Some dh"
      and t1: "t1 = t @ [(LogDebug ''Jumphost parameters are filled so use jumphost to connect to device'', Returns []),
                        (ConnectHandler jt jhh ju jp, Returns s1), (FindPrompt, Returns s2),
                        (LogInfo (''Connected to jumphost '' @ jhh @ '' for device '' @ dh), Returns [])]"
    by blast
  from start_relay_done [OF r] keys(5) obtain du s3
    where du: "cred ''username'' = Some du"
      and t2: "t2 = t1 @ [(WriteChannel (''ssh '' @ du @ ''@'' @ dh @ ''\<newline>''), Returns s3),
                        (Sleep 1, Returns []), (ReadChannel, Returns out)]"
    by auto
  from a keys(5) obtain ans where ans: "t' = t2 @ ans"
    "if password_prompt out
               then (\<exists>dp s4. cred ''password'' = Some dp
                       \<and> ans = [(LogInfo (''Connecting to device and found password prompt for '' @ dh), Returns []),
                                (WriteChannel (dp @ ''\<newline>''), Returns s4)])
               else ans = []"
    by (cases rule: answer_password_prompt_cases) simp_all
  from t1 t2 ans(1) have "t' = t @ [(LogDebug ''Jumphost parameters are filled so use jumphost to connect to device'', Returns []),
                        (ConnectHandler jt jhh ju jp, Returns s1), (FindPrompt, Returns s2),
                        (LogInfo (''Connected to jumphost '' @ jhh @ '' for device '' @ dh), Returns []),
                        (WriteChannel (''ssh '' @ du @ ''@'' @ dh @ ''\<newline>''), Returns s3),
                        (Sleep 1, Returns []), (ReadChannel, Returns out)] @ ans"
    by simp
  with keys du ans(2) show ?thesis by blast
qed

subsection \<open>The profile at each command\<close>

lemma profile_of_snoc: "profile_of (tr @ [e]) = profile_step (profile_of tr) e"
  by (simp add: profile_of_def)

lemma commands_match_shell_append:
  "commands_match_shell shell before (xs @ ys) \<longleftrightarrow>
     commands_match_shell shell before xs \<and> commands_match_shell shell (before @ xs) ys"
  by (induction xs arbitrary: before) auto

lemma commands_match_shell_no_send:
  "filter is_send (calls xs) = [] \<Longrightarrow> commands_match_shell shell before xs"
  by (induction xs arbitrary: before) (auto simp: calls_def split: if_splits)

lemma commands_match_shell_bound:
  assumes "profile_of before = Some dt"
    and "list_all (\<lambda>c. \<not> is_connect c \<and> \<not> is_redispatch c) (calls ys)"
  shows "commands_match_shell (\<lambda>_. dt) before ys"
  using assms
proof (induction ys arbitrary: before)
  case Nil
  then show ?case by simp
next
  case (Cons e es)
  obtain c r where e: "e = (c, r)" by (cases e)
  from Cons.prems(2) e have c: "\<not> is_connect c" "\<not> is_redispatch c" by (simp_all add: calls_def)
  then have "profile_step (Some dt) (c, r) = Some dt" by (cases c) simp_all
  with Cons.prems(1) e have "profile_of (before @ [e]) = Some dt" by (simp add: profile_of_snoc)
  moreover from Cons.prems(2) have "list_all (\<lambda>c. \<not> is_connect c \<and> \<not> is_redispatch c) (calls es)"
    by (simp add: calls_def)
  ultimately have "commands_match_shell (\<lambda>_. dt) (before @ [e]) es" by (rule Cons.IH)
  with Cons.prems(1) show ?case by simp
qed

subsection \<open>A raising call ends the run\<close>

lemma raise_is_finalD:
  assumes "raise_is_final m" "m t = (r, t')"
  obtains tr where "t' = t @ tr" "\<And>c x. (c, Raises x) \<in> set tr \<Longrightarrow> r = Inl (Raised x)"
proof -
  from assms(1) obtain tr where "snd (m t) = t @ tr"
    "\<forall>c x. (c, Raises x) \<in> set tr \<longrightarrow> fst (m t) = Inl (Raised x)"
    unfolding raise_is_final_def by blast
  with assms(2) have "t' = t @ tr" "\<And>c x. (c, Raises x) \<in> set tr \<Longrightarrow> r = Inl (Raised x)"
    by auto
  then show ?thesis by (rule that)
qed

lemma raise_is_final_return: "raise_is_final (io_return x)"
  by (simp add: raise_is_final_def)

lemma raise_is_final_getitem: "raise_is_final (getitem d k)"
  by (simp add: raise_is_final_def getitem_apply split: option.splits)

lemma raise_is_final_emit: "raise_is_final (emit c)"
  by (simp add: raise_is_final_def)

lemma raise_is_final_perform: "raise_is_final (perform w c)"
  by (simp add: raise_is_final_def perform_apply split: reply.splits)

lemma raise_is_final_bind:
  assumes "raise_is_final m" "\<And>x. raise_is_final (f x)"
  shows "raise_is_final (io_bind m f)"
  unfolding raise_is_final_def
proof
  fix t
  obtain r t1 where m: "m t = (r, t1)" by (cases "m t")
  from raise_is_finalD [OF assms(1) m] obtain tr1
    where t1: "t1 = t @ tr1" "\<And>c x. (c, Raises x) \<in> set tr1 \<Longrightarrow> r = Inl (Raised x)" by blast
  show "\<exists>tr. snd (io_bind m f t) = t @ tr
         \<and> (\<forall>c x. (c, Raises x) \<in> set tr \<longrightarrow> fst (io_bind m f t) = Inl (Raised x))"
  proof (cases r)
    case (Inl e)
    with m t1 show ?thesis by (auto simp: io_bind_apply)
  next
    case (Inr v)
    obtain r2 t2 where f: "f v t1 = (r2, t2)" by (cases "f v t1")
    from raise_is_finalD [OF assms(2) f] obtain tr2
      where t2: "t2 = t1 @ tr2" "\<And>c x. (c, Raises x) \<in> set tr2 \<Longrightarrow> r2 = Inl (Raised x)" by blast
    from Inr t1(2) have "\<And>c x. (c, Raises x) \<notin> set tr1" by fastforce
    with Inr m t1(1) f t2 have "snd (io_bind m f t) = t @ (tr1 @ tr2)
         \<and> (\<forall>c x. (c, Raises x) \<in> set (tr1 @ tr2) \<longrightarrow> fst (io_bind m f t) = Inl (Raised x))"
      by (auto simp: io_bind_apply)
    then show ?thesis by blast
  qed
qed

lemma raise_is_final_if:
  "raise_is_final m \<Longrightarrow> raise_is_final n \<Longrightarrow> raise_is_final (if b then m else n)"
  by simp

lemma send_initial_commands_raise_is_final: "raise_is_final (send_initial_commands w cs)"
proof (induction cs)
  case Nil
  have nil: "send_initial_commands w [] = io_return ()" by (simp add: fun_eq_iff)
  show ?case unfolding nil by (rule raise_is_final_return)
next
  case (Cons c cs)
  have cons: "send_initial_commands w (c # cs) =
          io_bind (perform w (SendCommand c)) (\<lambda>_. send_initial_commands w cs)"
    by (simp add: fun_eq_iff io_bind_apply)
  show ?case unfolding cons by (intro raise_is_final_bind raise_is_final_perform Cons)
qed

lemma send_show_commands_raise_is_final: "raise_is_final (send_show_commands w cs out)"
proof (induction cs arbitrary: out)
  case Nil
  have nil: "send_show_commands w [] out = io_return out" by (simp add: fun_eq_iff)
  show ?case unfolding nil by (rule raise_is_final_return)
next
  case (Cons c cs)
  have cons: "send_show_commands w (c # cs) out =
          io_bind (perform w (SendCommand c)) (\<lambda>s. send_show_commands w cs (out @ [s]))"
    by (simp add: fun_eq_iff io_bind_apply)
  show ?case unfolding cons by (intro raise_is_final_bind raise_is_final_perform Cons)
qed

lemmas raise_is_final_intros =
  raise_is_final_bind raise_is_final_return raise_is_final_getitem raise_is_final_emit
  raise_is_final_perform raise_is_final_if send_initial_commands_raise_is_final
  send_show_commands_raise_is_final

lemma get_device_info_raise_is_final: "raise_is_final (get_device_info w device dtp jh cred)"
  unfolding block_defs by (intro raise_is_final_intros)

subsection \<open>The device loop\<close>



lemma with_file_result:
  "with_file w body t =
     (case body t of
        (r, t1) \<Rightarrow>
          (case w t1 CloseFile of Raises x \<Rightarrow> Inl (Raised x) | Returns _ \<Rightarrow> r,
           t1 @ [(CloseFile, w t1 CloseFile)]))"
  by (simp add: with_file_def perform_apply split: prod.splits sum.splits reply.splits)

lemma main_loop_append:
  "main_loop w dtps jh cred (xs @ ys) t =
     (case main_loop w dtps jh cred xs t of
        (Inl e, t') \<Rightarrow> (Inl e, t')
      | (Inr _, t') \<Rightarrow> main_loop w dtps jh cred ys t')"
  by (induction xs arbitrary: t) (auto split: prod.splits sum.splits)

lemma main_loop_body_opened:
  assumes "device ''type'' = Some dt" "dtps dt = Some dtp" "device ''hostname'' = Some hn"
    and "w t (Strftime ''%Y-%m-%d_%H%M%S'') = Returns ct"
    and "w (t @ [(Strftime ''%Y-%m-%d_%H%M%S'', Returns ct)])
           (OpenFile (hn @ ''_'' @ ct @ ''.txt'') ''w'') = Returns f"
  shows "main_loop_body w dtps jh cred device t =
           with_file w (io_bind (get_device_info w device dtp jh cred) (write_outputs w))
             (t @ [(Strftime ''%Y-%m-%d_%H%M%S'', Returns ct),
                   (OpenFile (hn @ ''_'' @ ct @ ''.txt'') ''w'', Returns f)])"
  using assms by (simp add: main_loop_body_def io_simps)





subsection \<open>A world that never raises\<close>

text \<open>
  When no call raises and the dicts have their entries, \<^verbatim>\<open>get_device_info\<close> returns a list:
  the successful runs the claims speak about exist for every well-formed input.
\<close>

lemma send_initial_commands_returns:
  "\<exists>t'. send_initial_commands (\<lambda>t c. Returns (answer t c)) cs t = (Inr (), t')"
  by (induction cs arbitrary: t) (simp_all add: perform_apply)

lemma send_show_commands_returns:
  "\<exists>outs t'. send_show_commands (\<lambda>t c. Returns (answer t c)) cs out t = (Inr outs, t')"
  by (induction cs arbitrary: t out) (simp_all add: perform_apply)

lemma run_commands_returns:
  assumes "dtp ''initial_commands'' = Some ini" "dtp ''show_commands'' = Some shw"
    "device ''host'' = Some dh"
  shows "\<exists>outs t'. run_commands (\<lambda>t c. Returns (answer t c)) device dtp t = (Inr outs, t')"
proof -
  obtain t1 where 1: "send_initial_commands (\<lambda>t c. Returns (answer t c)) ini t = (Inr (), t1)"
    using send_initial_commands_returns by blast
  obtain outs t2 where 2: "send_show_commands (\<lambda>t c. Returns (answer t c)) shw [] t1 = (Inr outs, t2)"
    using send_show_commands_returns by blast
  from assms 1 2 show ?thesis
    by (simp add: run_commands_def io_bind_apply getitem_apply perform_apply)
qed

lemma get_device_info_returns:
  assumes "jh ''host'' = Some jhh" "jh ''device_type'' = Some jt" "jh ''username'' = Some ju"
    "jh ''password'' = Some jp" "device ''type'' = Some dt" "device ''host'' = Some dh"
    "cred ''username'' = Some du" "cred ''password'' = Some dp"
    "dtp ''initial_commands'' = Some ini" "dtp ''show_commands'' = Some shw"
  shows "\<exists>outs t'. get_device_info (\<lambda>t c. Returns (answer t c)) device dtp jh cred t = (Inr outs, t')"
proof -
  let ?w = "\<lambda>t c. Returns (answer t c)"
  have "\<exists>t1. (if jhh \<noteq> [] then connect_via_jumphost ?w device jh cred
               else connect_directly ?w device cred) t = (Inr (), t1)"
    using assms
    by (simp add: connect_via_jumphost_def open_jumphost_def start_relay_def
          answer_password_prompt_def rebind_profile_def connect_directly_def
          io_bind_apply getitem_apply perform_apply)
  then obtain t1 where "(if jhh \<noteq> [] then connect_via_jumphost ?w device jh cred
               else connect_directly ?w device cred) t = (Inr (), t1)" ..
  moreover from run_commands_returns [where dtp = dtp and device = device, OF assms(9,10,6)]
  obtain outs t' where "run_commands ?w device dtp t1 = (Inr outs, t')" by blast
  ultimately show ?thesis using assms(1)
    by (simp add: get_device_info_def io_bind_apply getitem_apply)
qed

section \<open>Sample runs\<close>

text \<open>
  The spec's Scenario A (direct) and Scenario B (relayed, with a password prompt), and a run
  in which a show command fails.
\<close>

lemma scenario_a:
  "get_device_info world_password_prompt example_device example_commands no_jumphost
     example_credentials [] =
   (Inr [''<show version>'', ''<show ip int brief>''],
    [(ConnectHandler ''ios'' ''10.0.0.1'' ''admin'' ''secret'', Returns []),
     (FindPrompt, Returns []),
     (LogInfo ''Connected to device  10.0.0.1'', Returns []),
     (SendCommand ''terminal length 0'', Returns ''<terminal length 0>''),
     (SendCommand ''show version'', Returns ''<show version>''),
     (SendCommand ''show ip int brief'', Returns ''<show ip int brief>''),
     (Disconnect, Returns []),
     (LogInfo ''Disconnected from 10.0.0.1'', Returns [])])"
  by (simp add: block_defs io_bind_apply getitem_apply perform_apply example_defs
        world_password_prompt_def)

lemma scenario_b:
  "get_device_info world_password_prompt example_device example_commands example_jumphost
     example_credentials [] =
   (Inr [''<show version>'', ''<show ip int brief>''],
    [(LogDebug ''Jumphost parameters are filled so use jumphost to connect to device'', Returns []),
     (ConnectHandler ''linux'' ''jump'' ''op'' ''pw'', Returns []),
     (FindPrompt, Returns []),
     (LogInfo ''Connected to jumphost jump for device 10.0.0.1'', Returns []),
     (WriteChannel ''ssh admin@10.0.0.1\<newline>'', Returns []),
     (Sleep 1, Returns []),
     (ReadChannel, Returns ''Password: ''),
     (LogInfo ''Connecting to device and found password prompt for 10.0.0.1'', Returns []),
     (WriteChannel ''secret\<newline>'', Returns []),
     (FindPrompt, Returns []),
     (Redispatch ''ios'', Returns []),
     (LogInfo ''Connected and redispatched to device  10.0.0.1'', Returns []),
     (SendCommand ''terminal length 0'', Returns ''<terminal length 0>''),
     (SendCommand ''show version'', Returns ''<show version>''),
     (SendCommand ''show ip int brief'', Returns ''<show ip int brief>''),
     (Disconnect, Returns []),
     (LogInfo ''Disconnected from 10.0.0.1'', Returns [])])"
  by (simp add: block_defs io_bind_apply getitem_apply perform_apply example_defs
        world_password_prompt_def password_prompt_def)

lemma run_command_fails:
  "get_device_info world_command_fails example_device example_commands no_jumphost
     example_credentials [] =
   (Inl (Raised ''ReadTimeout''),
    [(ConnectHandler ''ios'' ''10.0.0.1'' ''admin'' ''secret'', Returns []),
     (FindPrompt, Returns []),
     (LogInfo ''Connected to device  10.0.0.1'', Returns []),
     (SendCommand ''terminal length 0'', Returns ''<terminal length 0>''),
     (SendCommand ''show version'', Raises ''ReadTimeout'')])"
  by (simp add: block_defs io_bind_apply getitem_apply perform_apply example_defs
        world_command_fails_def)

text \<open>The spec's Scenario C (relayed, no password prompt), and the run with the late prompt.\<close>

lemma scenario_c:
  "get_device_info world_key_auth example_device example_commands example_jumphost
     example_credentials [] =
   (Inr [''<show version>'', ''<show ip int brief>''],
    [(LogDebug ''Jumphost parameters are filled so use jumphost to connect to device'', Returns []),
     (ConnectHandler ''linux'' ''jump'' ''op'' ''pw'', Returns []),
     (FindPrompt, Returns []),
     (LogInfo ''Connected to jumphost jump for device 10.0.0.1'', Returns []),
     (WriteChannel ''ssh admin@10.0.0.1\<newline>'', Returns []),
     (Sleep 1, Returns []),
     (ReadChannel, Returns ''r1#''),
     (FindPrompt, Returns []),
     (Redispatch ''ios'', Returns []),
     (LogInfo ''Connected and redispatched to device  10.0.0.1'', Returns []),
     (SendCommand ''terminal length 0'', Returns ''<terminal length 0>''),
     (SendCommand ''show version'', Returns ''<show version>''),
     (SendCommand ''show ip int brief'', Returns ''<show ip int brief>''),
     (Disconnect, Returns []),
     (LogInfo ''Disconnected from 10.0.0.1'', Returns [])])"
  by (simp add: block_defs io_bind_apply getitem_apply perform_apply example_defs
        world_key_auth_def password_prompt_def)

lemma run_late_prompt:
  "get_device_info world_late_prompt example_device example_commands example_jumphost
     example_credentials [] =
   (Inl (Raised ''NetmikoTimeoutException''),
    [(LogDebug ''Jumphost parameters are filled so use jumphost to connect to device'', Returns []),
     (ConnectHandler ''linux'' ''jump'' ''op'' ''pw'', Returns []),
     (FindPrompt, Returns ''jump> ''),
     (LogInfo ''Connected to jumphost jump for device 10.0.0.1'', Returns []),
     (WriteChannel ''ssh admin@10.0.0.1\<newline>'', Returns []),
     (Sleep 1, Returns []),
     (ReadChannel, Returns []),
     (FindPrompt, Returns ''Password: ''),
     (Redispatch ''ios'', Raises ''NetmikoTimeoutException'')])"
  by (simp add: block_defs io_bind_apply getitem_apply perform_apply example_defs
        world_late_prompt_def password_prompt_def calls_def)

text \<open>The run with the refused ssh, and the device loop on the second device alone.\<close>

lemma run_ssh_refused:
  "get_device_info world_ssh_refused example_device example_commands example_jumphost
     example_credentials [] =
   (Inr [''bash: show version: command not found'',
         ''bash: show ip int brief: command not found''],
    [(LogDebug ''Jumphost parameters are filled so use jumphost to connect to device'', Returns []),
     (ConnectHandler ''linux'' ''jump'' ''op'' ''pw'', Returns []),
     (FindPrompt, Returns ''jump> ''),
     (LogInfo ''Connected to jumphost jump for device 10.0.0.1'', Returns []),
     (WriteChannel ''ssh admin@10.0.0.1\<newline>'', Returns []),
     (Sleep 1, Returns []),
     (ReadChannel, Returns ''ssh: connect to host 10.0.0.1 port 22: Connection refused''),
     (FindPrompt, Returns ''jump> ''),
     (Redispatch ''ios'', Returns []),
     (LogInfo ''Connected and redispatched to device  10.0.0.1'', Returns []),
     (SendCommand ''terminal length 0'', Returns ''bash: terminal length 0: command not found''),
     (SendCommand ''show version'', Returns ''bash: show version: command not found''),
     (SendCommand ''show ip int brief'', Returns ''bash: show ip int brief: command not found''),
     (Disconnect, Returns []),
     (LogInfo ''Disconnected from 10.0.0.1'', Returns [])])"
  by (simp add: block_defs io_bind_apply getitem_apply perform_apply example_defs
        world_ssh_refused_def password_prompt_def)


section \<open>One session, direct or through the jump host\<close>

text \<open>
  Claim C1. When \<^verbatim>\<open>jumphost_params['host']\<close> is the empty string (and the device and
  credential entries exist), the first thing a call does is \<^verbatim>\<open>ConnectHandler\<close> with the
  device's type and host and the device credentials, and no other \<^verbatim>\<open>ConnectHandler\<close> call
  follows. When it is not empty (and the jump host's entries exist), the call logs a debug
  line and then calls \<^verbatim>\<open>ConnectHandler\<close> with the jump host's own type, host, username and
  password, and again no other \<^verbatim>\<open>ConnectHandler\<close> call follows: the device is reached only
  through that session.
\<close>

theorem one_session_direct_or_via_jumphost:
  assumes run: "get_device_info w device dtp jh cred t = (res, t')"
  shows "(jh ''host'' = Some [] \<and> device ''type'' = Some dt \<and> device ''host'' = Some dh
            \<and> cred ''username'' = Some du \<and> cred ''password'' = Some dp
          \<longrightarrow> (\<exists>rep rest. t' = t @ (ConnectHandler dt dh du dp, rep) # rest
                 \<and> filter is_connect (calls rest) = []))
       \<and> (jh ''host'' = Some jhh \<and> jhh \<noteq> [] \<and> jh ''device_type'' = Some jt
            \<and> jh ''username'' = Some ju \<and> jh ''password'' = Some jp
          \<longrightarrow> (\<exists>rep rest. t' = t @ (LogDebug ''Jumphost parameters are filled so use jumphost to connect to device'', Returns [])
                                  # (ConnectHandler jt jhh ju jp, rep) # rest
                 \<and> filter is_connect (calls rest) = []))"
proof (intro conjI impI; elim conjE)
  have cmds: "emits_only (\<lambda>c. \<not> is_connect c) (run_commands w device dtp)"
    by (intro run_commands_emits) (auto elim: is_send.elims)
  {
    assume keys: "jh ''host'' = Some []" "device ''type'' = Some dt" "device ''host'' = Some dh"
      "cred ''username'' = Some du" "cred ''password'' = Some dp"
    from run show "\<exists>rep rest. t' = t @ (ConnectHandler dt dh du dp, rep) # rest
                 \<and> filter is_connect (calls rest) = []"
    proof (cases rule: get_device_info_cases)
      case no_host
      with keys show ?thesis by simp
    next
      case (connect_fails jhh' e)
      with keys have "connect_directly w device cred t = (Inl e, t')" by simp
      from connect_directly_shape [OF this keys(2-5)] show ?thesis
        by (auto dest: no_connect_filter)
    next
      case (connected jhh' t1)
      with keys have "connect_directly w device cred t = (Inr (), t1)" by simp
      from connect_directly_shape [OF this keys(2-5)] obtain rep rest1
        where 1: "t1 = t @ (ConnectHandler dt dh du dp, rep) # rest1"
          "list_all (\<lambda>c. \<not> is_connect c) (calls rest1)" by blast
      from emits_onlyD [OF cmds connected(3)] obtain rest2
        where 2: "t' = t1 @ rest2" "list_all (\<lambda>c. \<not> is_connect c) (calls rest2)" .
      from 1 2 have "t' = t @ (ConnectHandler dt dh du dp, rep) # (rest1 @ rest2)
          \<and> filter is_connect (calls (rest1 @ rest2)) = []"
        by (simp add: calls_def no_connect_filter [unfolded calls_def])
      then show ?thesis by blast
    qed
  }
  {
    assume keys: "jh ''host'' = Some jhh" "jhh \<noteq> []" "jh ''device_type'' = Some jt"
      "jh ''username'' = Some ju" "jh ''password'' = Some jp"
    let ?log = "(LogDebug ''Jumphost parameters are filled so use jumphost to connect to device'', Returns [])"
    from run show "\<exists>rep rest. t' = t @ ?log # (ConnectHandler jt jhh ju jp, rep) # rest
                 \<and> filter is_connect (calls rest) = []"
    proof (cases rule: get_device_info_cases)
      case no_host
      with keys show ?thesis by simp
    next
      case (connect_fails jhh' e)
      with keys have "connect_via_jumphost w device jh cred t = (Inl e, t')" by simp
      from connect_via_jumphost_shape [OF this keys(3) keys(1) keys(4,5)] show ?thesis
        by (auto dest: no_connect_filter)
    next
      case (connected jhh' t1)
      with keys have "connect_via_jumphost w device jh cred t = (Inr (), t1)" by simp
      from connect_via_jumphost_shape [OF this keys(3) keys(1) keys(4,5)] obtain rep rest1
        where 1: "t1 = t @ ?log # (ConnectHandler jt jhh ju jp, rep) # rest1"
          "list_all (\<lambda>c. \<not> is_connect c) (calls rest1)" by blast
      from emits_onlyD [OF cmds connected(3)] obtain rest2
        where 2: "t' = t1 @ rest2" "list_all (\<lambda>c. \<not> is_connect c) (calls rest2)" .
      from 1 2 have "t' = t @ ?log # (ConnectHandler jt jhh ju jp, rep) # (rest1 @ rest2)
          \<and> filter is_connect (calls (rest1 @ rest2)) = []"
        by (simp add: calls_def no_connect_filter [unfolded calls_def])
      then show ?thesis by blast
    qed
  }
qed

theorem one_session_direct_or_via_jumphost_witness:
  "(no_jumphost ''host'' = Some [] \<and> example_device ''type'' = Some ''ios''
      \<and> example_device ''host'' = Some ''10.0.0.1''
      \<and> example_credentials ''username'' = Some ''admin''
      \<and> example_credentials ''password'' = Some ''secret''
      \<and> (\<exists>rep rest.
            snd (get_device_info world_password_prompt example_device example_commands
                   no_jumphost example_credentials [])
              = [] @ (ConnectHandler ''ios'' ''10.0.0.1'' ''admin'' ''secret'', rep) # rest
            \<and> filter is_connect (calls rest) = []))
   \<and> (example_jumphost ''host'' = Some ''jump'' \<and> ''jump'' \<noteq> []
      \<and> example_jumphost ''device_type'' = Some ''linux''
      \<and> example_jumphost ''username'' = Some ''op''
      \<and> example_jumphost ''password'' = Some ''pw''
      \<and> (\<exists>rep rest.
            snd (get_device_info world_password_prompt example_device example_commands
                   example_jumphost example_credentials [])
              = [] @ (LogDebug ''Jumphost parameters are filled so use jumphost to connect to device'', Returns [])
                   # (ConnectHandler ''linux'' ''jump'' ''op'' ''pw'', rep) # rest
            \<and> filter is_connect (calls rest) = []))"
proof -
  have direct_keys: "no_jumphost ''host'' = Some [] \<and> example_device ''type'' = Some ''ios''
      \<and> example_device ''host'' = Some ''10.0.0.1''
      \<and> example_credentials ''username'' = Some ''admin''
      \<and> example_credentials ''password'' = Some ''secret''"
    by (simp add: example_defs)
  have relay_keys: "example_jumphost ''host'' = Some ''jump'' \<and> ''jump'' \<noteq> []
      \<and> example_jumphost ''device_type'' = Some ''linux''
      \<and> example_jumphost ''username'' = Some ''op''
      \<and> example_jumphost ''password'' = Some ''pw''"
    by (simp add: example_defs)
  from one_session_direct_or_via_jumphost [OF scenario_a] direct_keys
  have direct: "\<exists>rep rest.
      snd (get_device_info world_password_prompt example_device example_commands
             no_jumphost example_credentials [])
        = [] @ (ConnectHandler ''ios'' ''10.0.0.1'' ''admin'' ''secret'', rep) # rest
      \<and> filter is_connect (calls rest) = []"
    unfolding scenario_a snd_conv by blast
  from one_session_direct_or_via_jumphost [OF scenario_b] relay_keys
  have relay: "\<exists>rep rest.
      snd (get_device_info world_password_prompt example_device example_commands
             example_jumphost example_credentials [])
        = [] @ (LogDebug ''Jumphost parameters are filled so use jumphost to connect to device'', Returns [])
             # (ConnectHandler ''linux'' ''jump'' ''op'' ''pw'', rep) # rest
      \<and> filter is_connect (calls rest) = []"
    unfolding scenario_b snd_conv by blast
  from direct_keys direct relay_keys relay show ?thesis by blast
qed

section \<open>The profile is rebound once, after the negotiation\<close>

text \<open>
  Claim C2 ends with: the session's profile matches the shell it is talking to before any
  command of the device session is issued. The prompt wait of line 59 accepts any prompt. In
  the run below the relayed ssh is refused and the jump host's own prompt comes back: the
  wait returns, the session is redispatched to the device's type \<^verbatim>\<open>ios\<close>, and every command
  is sent to the jump host's shell and answered by it, so the profile does not match the
  shell when the commands are issued; the call returns the shell's error messages as its
  outputs.
\<close>

theorem profile_matches_shell_counterexample:
  "get_device_info world_ssh_refused example_device example_commands example_jumphost
     example_credentials [] =
   (Inr [''bash: show version: command not found'',
         ''bash: show ip int brief: command not found''],
    [(LogDebug ''Jumphost parameters are filled so use jumphost to connect to device'', Returns []),
     (ConnectHandler ''linux'' ''jump'' ''op'' ''pw'', Returns []),
     (FindPrompt, Returns ''jump> ''),
     (LogInfo ''Connected to jumphost jump for device 10.0.0.1'', Returns []),
     (WriteChannel ''ssh admin@10.0.0.1\<newline>'', Returns []),
     (Sleep 1, Returns []),
     (ReadChannel, Returns ''ssh: connect to host 10.0.0.1 port 22: Connection refused''),
     (FindPrompt, Returns ''jump> ''),
     (Redispatch ''ios'', Returns []),
     (LogInfo ''Connected and redispatched to device  10.0.0.1'', Returns []),
     (SendCommand ''terminal length 0'', Returns ''bash: terminal length 0: command not found''),
     (SendCommand ''show version'', Returns ''bash: show version: command not found''),
     (SendCommand ''show ip int brief'', Returns ''bash: show ip int brief: command not found''),
     (Disconnect, Returns []),
     (LogInfo ''Disconnected from 10.0.0.1'', Returns [])])
   \<and> \<not> commands_match_shell shell_when_ssh_refused []
         (snd (get_device_info world_ssh_refused example_device example_commands example_jumphost
                 example_credentials []))"
  by (simp add: run_ssh_refused profile_of_def shell_when_ssh_refused_def)

text \<open>
  Claim C2, amended. On the relayed path a run has one of two shapes. Either it failed
  before the rebind: then it contains no \<^verbatim>\<open>redispatch\<close> and no \<^verbatim>\<open>send_command\<close> at all. Or it
  is, event for event: the opening of the jump host's session, the ssh command, the sleep,
  the one read of the channel, the log line and password write if and only if the text read
  holds a password prompt, then a \<^verbatim>\<open>find_prompt\<close> that returned, immediately followed by
  \<^verbatim>\<open>redispatch\<close> with the device's type, and after that only log lines, \<^verbatim>\<open>send_command\<close> calls
  and the disconnect; when the \<^verbatim>\<open>redispatch\<close> raises, the run ends there. So the profile is
  rebound exactly once, after the whole relay negotiation and a successful prompt wait, and
  whenever a command is issued the session's profile is the device's type. That the shell at
  the other end is the device's is not part of the statement.
\<close>

theorem rebind_once_after_negotiation:
  assumes run: "get_device_info w device dtp jh cred t = (res, t @ tr)"
    and jh: "jh ''host'' = Some jhh" "jhh \<noteq> []"
  shows "((\<exists>e. res = Inl e) \<and> filter is_redispatch (calls tr) = []
            \<and> filter is_send (calls tr) = [])
       \<or> (\<exists>jt ju jp dh du dt s1 s2 s3 out ans s rep post.
            jh ''device_type'' = Some jt \<and> jh ''username'' = Some ju \<and> jh ''password'' = Some jp
            \<and> device ''host'' = Some dh \<and> cred ''username'' = Some du \<and> device ''type'' = Some dt
            \<and> tr = [(LogDebug ''Jumphost parameters are filled so use jumphost to connect to device'', Returns []),
                     (ConnectHandler jt jhh ju jp, Returns s1), (FindPrompt, Returns s2),
                     (LogInfo (''Connected to jumphost '' @ jhh @ '' for device '' @ dh), Returns []),
                     (WriteChannel (''ssh '' @ du @ ''@'' @ dh @ ''\<newline>''), Returns s3),
                     (Sleep 1, Returns []), (ReadChannel, Returns out)]
                    @ ans @ [(FindPrompt, Returns s), (Redispatch dt, rep)] @ post
            \<and> (if password_prompt out
                then (\<exists>dp s4. cred ''password'' = Some dp
                        \<and> ans = [(LogInfo (''Connecting to device and found password prompt for '' @ dh), Returns []),
                                 (WriteChannel (dp @ ''\<newline>''), Returns s4)])
                else ans = [])
            \<and> list_all (\<lambda>c. is_log c \<or> is_send c \<or> c = Disconnect) (calls post)
            \<and> (case rep of Raises x \<Rightarrow> post = [] \<and> res = Inl (Raised x) | Returns _ \<Rightarrow> True)
            \<and> commands_match_shell (\<lambda>_. dt) [] tr)"
proof -
  from run have "io_bind (io_bind (open_jumphost w device jh) (\<lambda>_.
                    io_bind (start_relay w device cred) (\<lambda>out.
                    answer_password_prompt w device cred out))) (\<lambda>_.
           io_bind (rebind_profile w device) (\<lambda>_.
           run_commands w device dtp)) t = (res, t @ tr)"
    by (simp add: relayed_call_two_phases [of jh jhh, OF jh])
  then show ?thesis
  proof (cases rule: io_bind_cases)
    case (fails e)
    from emits_onlyD [OF negotiation_emits fails(1)]
    have "list_all (\<lambda>c. \<not> is_redispatch c \<and> \<not> is_send c) (calls tr)" by auto
    with fails(2) show ?thesis by (simp add: list_all_iff filter_empty_conv)
  next
    case negotiated: (goes_on u t3)
    from negotiation_trace [OF negotiated(1)] jh(1) obtain jt ju jp dh du s1 s2 s3 out ans
      where keys: "jh ''device_type'' = Some jt" "jh ''username'' = Some ju"
          "jh ''password'' = Some jp" "device ''host'' = Some dh" "cred ''username'' = Some du"
        and t3: "t3 = t @ [(LogDebug ''Jumphost parameters are filled so use jumphost to connect to device'', Returns []),
                     (ConnectHandler jt jhh ju jp, Returns s1), (FindPrompt, Returns s2),
                     (LogInfo (''Connected to jumphost '' @ jhh @ '' for device '' @ dh), Returns []),
                     (WriteChannel (''ssh '' @ du @ ''@'' @ dh @ ''\<newline>''), Returns s3),
                     (Sleep 1, Returns []), (ReadChannel, Returns out)] @ ans"
        and ans: "if password_prompt out
                then (\<exists>dp s4. cred ''password'' = Some dp
                        \<and> ans = [(LogInfo (''Connecting to device and found password prompt for '' @ dh), Returns []),
                                 (WriteChannel (dp @ ''\<newline>''), Returns s4)])
                else ans = []"
      by auto
    let ?neg = "[(LogDebug ''Jumphost parameters are filled so use jumphost to connect to device'', Returns []),
                     (ConnectHandler jt jhh ju jp, Returns s1), (FindPrompt, Returns s2),
                     (LogInfo (''Connected to jumphost '' @ jhh @ '' for device '' @ dh), Returns []),
                     (WriteChannel (''ssh '' @ du @ ''@'' @ dh @ ''\<newline>''), Returns s3),
                     (Sleep 1, Returns []), (ReadChannel, Returns out)]"
    from ans have quiet: "filter is_send (calls (?neg @ ans)) = []"
      "filter is_redispatch (calls (?neg @ ans)) = []"
      by (auto simp: calls_def split: if_splits)
    have cmds: "emits_only (\<lambda>c. is_log c \<or> is_send c \<or> c = Disconnect) (run_commands w device dtp)"
      by (intro run_commands_emits) simp_all
    from negotiated(2) show ?thesis
    proof (cases rule: io_bind_cases)
      case (fails e)
      from fails(1) show ?thesis
      proof (cases rule: rebind_profile_cases)
        case (prompt_fails x)
        with t3 have "tr = (?neg @ ans) @ [(FindPrompt, Raises x)]" by simp
        with quiet fails(2) show ?thesis by (simp add: calls_def)
      next
        case (no_type s)
        with t3 have "tr = (?neg @ ans) @ [(FindPrompt, Returns s)]" by simp
        with quiet fails(2) show ?thesis by (simp add: calls_def)
      next
        case (rebind_fails dt s x)
        with t3 have tr: "tr = ?neg @ ans @ [(FindPrompt, Returns s), (Redispatch dt, Raises x)] @ []"
          by simp
        with quiet have "filter is_send (calls tr) = []" by (simp add: calls_def)
        then have "commands_match_shell (\<lambda>_. dt) [] tr" by (rule commands_match_shell_no_send)
        with keys rebind_fails(1) tr ans fails(2) rebind_fails(3)
        have "jh ''device_type'' = Some jt \<and> jh ''username'' = Some ju \<and> jh ''password'' = Some jp
            \<and> device ''host'' = Some dh \<and> cred ''username'' = Some du \<and> device ''type'' = Some dt
            \<and> tr = ?neg @ ans @ [(FindPrompt, Returns s), (Redispatch dt, Raises x)] @ []
            \<and> (if password_prompt out
                then (\<exists>dp s4. cred ''password'' = Some dp
                        \<and> ans = [(LogInfo (''Connecting to device and found password prompt for '' @ dh), Returns []),
                                 (WriteChannel (dp @ ''\<newline>''), Returns s4)])
                else ans = [])
            \<and> list_all (\<lambda>c. is_log c \<or> is_send c \<or> c = Disconnect) (calls [])
            \<and> (case Raises x of Raises x \<Rightarrow> [] = ([] :: trace) \<and> res = Inl (Raised x)
                | Returns _ \<Rightarrow> True)
            \<and> commands_match_shell (\<lambda>_. dt) [] tr"
          by (simp add: calls_def)
        then show ?thesis by blast
      next
        case (no_host dt s s')
        with keys(4) show ?thesis by simp
      next
        case (rebound dt s s' dh')
        with fails(2) show ?thesis by simp
      qed
    next
      case rebinds: (goes_on u' t4)
      from rebinds(1) keys(4) obtain dt s s' where dt: "device ''type'' = Some dt"
        and t4: "t4 = t3 @ [(FindPrompt, Returns s), (Redispatch dt, Returns s'),
                   (LogInfo (''Connected and redispatched to device  '' @ dh), Returns [])]"
        by (cases rule: rebind_profile_cases) simp_all
      from emits_onlyD [OF cmds rebinds(2)] obtain tr5
        where tr5: "t @ tr = t4 @ tr5"
          "list_all (\<lambda>c. is_log c \<or> is_send c \<or> c = Disconnect) (calls tr5)" .
      let ?post = "(LogInfo (''Connected and redispatched to device  '' @ dh), Returns []) # tr5"
      let ?upto = "?neg @ ans @ [(FindPrompt, Returns s), (Redispatch dt, Returns s')]"
      from t3 t4 tr5(1)
      have tr: "tr = ?neg @ ans @ [(FindPrompt, Returns s), (Redispatch dt, Returns s')] @ ?post"
        by simp
      from tr5(2) have post: "list_all (\<lambda>c. is_log c \<or> is_send c \<or> c = Disconnect) (calls ?post)"
        by (simp add: calls_def)
      have "\<And>c. is_log c \<or> is_send c \<or> c = Disconnect \<Longrightarrow> \<not> is_connect c \<and> \<not> is_redispatch c"
      proof -
        fix c show "is_log c \<or> is_send c \<or> c = Disconnect \<Longrightarrow> \<not> is_connect c \<and> \<not> is_redispatch c"
          by (cases c) simp_all
      qed
      with post have plain: "list_all (\<lambda>c. \<not> is_connect c \<and> \<not> is_redispatch c) (calls ?post)"
        unfolding list_all_iff by blast
      from quiet have "filter is_send (calls ?upto) = []" by (simp add: calls_def)
      then have 1: "commands_match_shell (\<lambda>_. dt) [] ?upto" by (rule commands_match_shell_no_send)
      have "profile_of (([] @ ?neg @ ans @ [(FindPrompt, Returns s)]) @ [(Redispatch dt, Returns s')]) = Some dt"
        unfolding profile_of_snoc by simp
      then have "profile_of ([] @ ?upto) = Some dt" by simp
      from commands_match_shell_bound [OF this plain]
      have 2: "commands_match_shell (\<lambda>_. dt) ([] @ ?upto) ?post" .
      have "tr = ?upto @ ?post" using tr by simp
      with 1 2 have match: "commands_match_shell (\<lambda>_. dt) [] tr"
        by (simp only: commands_match_shell_append)
      from keys dt tr ans post match
      have "jh ''device_type'' = Some jt \<and> jh ''username'' = Some ju \<and> jh ''password'' = Some jp
            \<and> device ''host'' = Some dh \<and> cred ''username'' = Some du \<and> device ''type'' = Some dt
            \<and> tr = ?neg @ ans @ [(FindPrompt, Returns s), (Redispatch dt, Returns s')] @ ?post
            \<and> (if password_prompt out
                then (\<exists>dp s4. cred ''password'' = Some dp
                        \<and> ans = [(LogInfo (''Connecting to device and found password prompt for '' @ dh), Returns []),
                                 (WriteChannel (dp @ ''\<newline>''), Returns s4)])
                else ans = [])
            \<and> list_all (\<lambda>c. is_log c \<or> is_send c \<or> c = Disconnect) (calls ?post)
            \<and> (case Returns s' of Raises x \<Rightarrow> ?post = [] \<and> res = Inl (Raised x)
                | Returns _ \<Rightarrow> True)
            \<and> commands_match_shell (\<lambda>_. dt) [] tr"
        by simp
      then show ?thesis by blast
    qed
  qed
qed

theorem rebind_once_after_negotiation_witness:
  "fst (get_device_info world_password_prompt example_device example_commands example_jumphost
          example_credentials []) = Inr [''<show version>'', ''<show ip int brief>'']
   \<and> example_jumphost ''host'' = Some ''jump'' \<and> ''jump'' \<noteq> []
   \<and> (\<exists>s1 s2 s3 s4 s rep post.
         snd (get_device_info world_password_prompt example_device example_commands
                example_jumphost example_credentials [])
           = [(LogDebug ''Jumphost parameters are filled so use jumphost to connect to device'', Returns []),
              (ConnectHandler ''linux'' ''jump'' ''op'' ''pw'', Returns s1), (FindPrompt, Returns s2),
              (LogInfo (''Connected to jumphost '' @ ''jump'' @ '' for device '' @ ''10.0.0.1''), Returns []),
              (WriteChannel (''ssh '' @ ''admin'' @ ''@'' @ ''10.0.0.1'' @ ''\<newline>''), Returns s3),
              (Sleep 1, Returns []), (ReadChannel, Returns ''Password: '')]
             @ [(LogInfo (''Connecting to device and found password prompt for '' @ ''10.0.0.1''), Returns []),
                (WriteChannel (''secret'' @ ''\<newline>''), Returns s4)]
             @ [(FindPrompt, Returns s), (Redispatch ''ios'', rep)] @ post
         \<and> list_all (\<lambda>c. is_log c \<or> is_send c \<or> c = Disconnect) (calls post))
   \<and> commands_match_shell (\<lambda>_. ''ios'') []
         (snd (get_device_info world_password_prompt example_device example_commands
                 example_jumphost example_credentials []))"
proof -
  let ?run = "get_device_info world_password_prompt example_device example_commands
                example_jumphost example_credentials []"
  have run: "?run = (fst ?run, [] @ snd ?run)" by simp
  have ok: "fst ?run = Inr [''<show version>'', ''<show ip int brief>'']"
    by (simp add: scenario_b)
  have jh: "example_jumphost ''host'' = Some ''jump''" "''jump'' \<noteq> []"
    by (simp_all add: example_defs)
  have keys: "example_jumphost ''device_type'' = Some ''linux''"
    "example_jumphost ''username'' = Some ''op''" "example_jumphost ''password'' = Some ''pw''"
    "example_device ''host'' = Some ''10.0.0.1''" "example_credentials ''username'' = Some ''admin''"
    "example_device ''type'' = Some ''ios''" "example_credentials ''password'' = Some ''secret''"
    by (simp_all add: example_defs)
  have prompt: "password_prompt ''Password: ''" by (simp add: password_prompt_def)
  from rebind_once_after_negotiation [OF run jh] ok
  obtain jt ju jp dh du dt s1 s2 s3 out ans s rep post
    where k: "example_jumphost ''device_type'' = Some jt" "example_jumphost ''username'' = Some ju"
        "example_jumphost ''password'' = Some jp" "example_device ''host'' = Some dh"
        "example_credentials ''username'' = Some du" "example_device ''type'' = Some dt"
      and tr: "snd ?run = [(LogDebug ''Jumphost parameters are filled so use jumphost to connect to device'', Returns []),
                     (ConnectHandler jt ''jump'' ju jp, Returns s1), (FindPrompt, Returns s2),
                     (LogInfo (''Connected to jumphost '' @ ''jump'' @ '' for device '' @ dh), Returns []),
                     (WriteChannel (''ssh '' @ du @ ''@'' @ dh @ ''\<newline>''), Returns s3),
                     (Sleep 1, Returns []), (ReadChannel, Returns out)]
                    @ ans @ [(FindPrompt, Returns s), (Redispatch dt, rep)] @ post"
      and ans: "if password_prompt out
                then (\<exists>dp s4. example_credentials ''password'' = Some dp
                        \<and> ans = [(LogInfo (''Connecting to device and found password prompt for '' @ dh), Returns []),
                                 (WriteChannel (dp @ ''\<newline>''), Returns s4)])
                else ans = []"
      and post: "list_all (\<lambda>c. is_log c \<or> is_send c \<or> c = Disconnect) (calls post)"
      and match: "commands_match_shell (\<lambda>_. dt) [] (snd ?run)"
    by auto
  from k keys have eq: "jt = ''linux''" "ju = ''op''" "jp = ''pw''" "dh = ''10.0.0.1''"
    "du = ''admin''" "dt = ''ios''" by simp_all
  from tr have "out = ''Password: ''" by (simp add: scenario_b)
  with ans prompt keys(7) eq obtain s4
    where "ans = [(LogInfo (''Connecting to device and found password prompt for '' @ ''10.0.0.1''), Returns []),
                  (WriteChannel (''secret'' @ ''\<newline>''), Returns s4)]"
    by auto
  with tr eq \<open>out = ''Password: ''\<close> post
  have "\<exists>s1 s2 s3 s4 s rep post.
         snd ?run
           = [(LogDebug ''Jumphost parameters are filled so use jumphost to connect to device'', Returns []),
              (ConnectHandler ''linux'' ''jump'' ''op'' ''pw'', Returns s1), (FindPrompt, Returns s2),
              (LogInfo (''Connected to jumphost '' @ ''jump'' @ '' for device '' @ ''10.0.0.1''), Returns []),
              (WriteChannel (''ssh '' @ ''admin'' @ ''@'' @ ''10.0.0.1'' @ ''\<newline>''), Returns s3),
              (Sleep 1, Returns []), (ReadChannel, Returns ''Password: '')]
             @ [(LogInfo (''Connecting to device and found password prompt for '' @ ''10.0.0.1''), Returns []),
                (WriteChannel (''secret'' @ ''\<newline>''), Returns s4)]
             @ [(FindPrompt, Returns s), (Redispatch ''ios'', rep)] @ post
         \<and> list_all (\<lambda>c. is_log c \<or> is_send c \<or> c = Disconnect) (calls post)"
    by blast
  with ok jh match eq(6) show ?thesis by blast
qed

section \<open>The password is sent exactly when a prompt was read\<close>

text \<open>
  Claim C3. On the relayed path, let \<open>out\<close> be the text that \<^verbatim>\<open>read_channel\<close> returned. Before
  the read the only text written to the channel is the ssh command, and the channel is read
  only this once. If \<open>out\<close> contains \<^verbatim>\<open>password\<close> or \<^verbatim>\<open>Password\<close> as a substring (case-sensitive,
  anywhere) and the credentials have a password entry, the next two events are a log line and
  the write of the password followed by a newline, and nothing is written after it (without
  a password entry the call fails with KeyError and nothing is written). If \<open>out\<close> contains
  neither, the next event is \<^verbatim>\<open>find_prompt\<close> and nothing is written any more.
\<close>

theorem password_sent_iff_prompted:
  assumes run: "get_device_info w device dtp jh cred t = (res, t @ tr)"
    and jh: "jh ''host'' = Some jhh" "jhh \<noteq> []"
    and read: "(ReadChannel, Returns out) \<in> set tr"
  shows "\<exists>du dh pre post.
           cred ''username'' = Some du \<and> device ''host'' = Some dh
           \<and> tr = pre @ (ReadChannel, Returns out) # post
           \<and> filter is_write (calls pre) = [WriteChannel (''ssh '' @ du @ ''@'' @ dh @ ''\<newline>'')]
           \<and> ReadChannel \<notin> set (calls pre) \<and> ReadChannel \<notin> set (calls post)
           \<and> (if (\<exists>a b. out = a @ ''password'' @ b) \<or> (\<exists>a b. out = a @ ''Password'' @ b)
               then (case cred ''password'' of
                       None \<Rightarrow> filter is_write (calls post) = [] \<and> res = Inl (KeyError ''password'')
                     | Some dp \<Rightarrow>
                         (\<exists>l rep post'. post = (LogInfo l, Returns []) # (WriteChannel (dp @ ''\<newline>''), rep) # post'
                            \<and> filter is_write (calls post') = []))
               else (\<exists>rep post'. post = (FindPrompt, rep) # post'
                       \<and> filter is_write (calls post') = []))"
proof -
  from run have "io_bind (open_jumphost w device jh) (\<lambda>_.
           io_bind (start_relay w device cred) (\<lambda>out.
           io_bind (answer_password_prompt w device cred out) (\<lambda>_.
           io_bind (rebind_profile w device) (\<lambda>_.
           run_commands w device dtp)))) t = (res, t @ tr)"
    by (simp add: relayed_call [of jh jhh, OF jh])
  then show ?thesis
  proof (cases rule: io_bind_cases)
    case (fails e)
    from open_jumphost_fails_no_read [OF fails(1)] read show ?thesis
      by (auto simp: list_all_iff calls_def)
  next
    case opened: (goes_on x t1)
    from opened(1) have "open_jumphost w device jh t = (Inr (), t1)" by simp
    from open_jumphost_done [OF this] obtain jt jhh' ju jp dh s1 s2
      where dh: "device ''host'' = Some dh"
        and t1: "t1 = t @ [(LogDebug ''Jumphost parameters are filled so use jumphost to connect to device'', Returns []),
                        (ConnectHandler jt jhh' ju jp, Returns s1), (FindPrompt, Returns s2),
                        (LogInfo (''Connected to jumphost '' @ jhh' @ '' for device '' @ dh), Returns [])]"
      by blast
    from opened(2) show ?thesis
    proof (cases rule: io_bind_cases)
      case (fails e)
      have "emits_only (\<lambda>_. True) (start_relay w device cred)"
        by (intro start_relay_emits) simp_all
      from emits_onlyD [OF this fails(1)] obtain tr2 where tr2: "t @ tr = t1 @ tr2" by blast
      with fails(1) have "start_relay w device cred t1 = (Inl e, t1 @ tr2)" by simp
      from start_relay_fails [OF this] have "(ReadChannel, Returns out) \<notin> set tr2" .
      with tr2 t1 read show ?thesis by auto
    next
      case relayed: (goes_on out' t2)
      from start_relay_done [OF relayed(1)] dh obtain du s3
        where du: "cred ''username'' = Some du"
          and t2: "t2 = t1 @ [(WriteChannel (''ssh '' @ du @ ''@'' @ dh @ ''\<newline>''), Returns s3),
                        (Sleep 1, Returns []), (ReadChannel, Returns out')]"
        by auto
      from after_read_shape [OF relayed(2) dh] obtain post
        where post: "t @ tr = t2 @ post" "ReadChannel \<notin> set (calls post)"
          and shape: "if password_prompt out'
               then (case cred ''password'' of
                       None \<Rightarrow> filter is_write (calls post) = [] \<and> res = Inl (KeyError ''password'')
                     | Some dp \<Rightarrow>
                         (\<exists>l rep post'. post = (LogInfo l, Returns []) # (WriteChannel (dp @ ''\<newline>''), rep) # post'
                            \<and> filter is_write (calls post') = []))
               else (\<exists>rep post'. post = (FindPrompt, rep) # post'
                       \<and> filter is_write (calls post') = [])"
        by blast
      let ?pre = "[(LogDebug ''Jumphost parameters are filled so use jumphost to connect to device'', Returns []),
                        (ConnectHandler jt jhh' ju jp, Returns s1), (FindPrompt, Returns s2),
                        (LogInfo (''Connected to jumphost '' @ jhh' @ '' for device '' @ dh), Returns []),
                   (WriteChannel (''ssh '' @ du @ ''@'' @ dh @ ''\<newline>''), Returns s3),
                        (Sleep 1, Returns [])]"
      from post(1) t1 t2 have tr: "tr = ?pre @ (ReadChannel, Returns out') # post" by simp
      from post(2) have "(ReadChannel, Returns out) \<notin> set post" by (force simp: calls_def)
      with read tr have "out = out'" by simp
      have pre: "filter is_write (calls ?pre) = [WriteChannel (''ssh '' @ du @ ''@'' @ dh @ ''\<newline>'')]"
        "ReadChannel \<notin> set (calls ?pre)"
        by (simp_all add: calls_def)
      from shape have "if (\<exists>a b. out' = a @ ''password'' @ b) \<or> (\<exists>a b. out' = a @ ''Password'' @ b)
               then (case cred ''password'' of
                       None \<Rightarrow> filter is_write (calls post) = [] \<and> res = Inl (KeyError ''password'')
                     | Some dp \<Rightarrow>
                         (\<exists>l rep post'. post = (LogInfo l, Returns []) # (WriteChannel (dp @ ''\<newline>''), rep) # post'
                            \<and> filter is_write (calls post') = []))
               else (\<exists>rep post'. post = (FindPrompt, rep) # post'
                       \<and> filter is_write (calls post') = [])"
        unfolding password_prompt_iff .
      with du dh tr pre post(2) \<open>out = out'\<close> show ?thesis by blast
    qed
  qed
qed

theorem password_sent_iff_prompted_witness:
  "example_jumphost ''host'' = Some ''jump'' \<and> ''jump'' \<noteq> []
   \<and> (ReadChannel, Returns ''Password: '')
        \<in> set (snd (get_device_info world_password_prompt example_device example_commands
                      example_jumphost example_credentials []))
   \<and> (\<exists>pre l rep post'.
         snd (get_device_info world_password_prompt example_device example_commands
                example_jumphost example_credentials [])
           = pre @ (ReadChannel, Returns ''Password: '')
                 # (LogInfo l, Returns []) # (WriteChannel ''secret\<newline>'', rep) # post'
         \<and> filter is_write (calls pre) = [WriteChannel ''ssh admin@10.0.0.1\<newline>'']
         \<and> filter is_write (calls post') = [])
   \<and> (ReadChannel, Returns ''r1#'')
        \<in> set (snd (get_device_info world_key_auth example_device example_commands
                      example_jumphost example_credentials []))
   \<and> (\<exists>pre rep post'.
         snd (get_device_info world_key_auth example_device example_commands
                example_jumphost example_credentials [])
           = pre @ (ReadChannel, Returns ''r1#'') # (FindPrompt, rep) # post'
         \<and> filter is_write (calls pre) = [WriteChannel ''ssh admin@10.0.0.1\<newline>'']
         \<and> filter is_write (calls post') = [])"
proof -
  let ?b = "get_device_info world_password_prompt example_device example_commands
                example_jumphost example_credentials []"
  let ?c = "get_device_info world_key_auth example_device example_commands
                example_jumphost example_credentials []"
  have jh: "example_jumphost ''host'' = Some ''jump''" "''jump'' \<noteq> []"
    by (simp_all add: example_defs)
  have keys: "example_credentials ''username'' = Some ''admin''"
    "example_credentials ''password'' = Some ''secret''"
    "example_device ''host'' = Some ''10.0.0.1''"
    by (simp_all add: example_defs)
  have run_b: "?b = (fst ?b, [] @ snd ?b)" and run_c: "?c = (fst ?c, [] @ snd ?c)" by simp_all
  have read_b: "(ReadChannel, Returns ''Password: '') \<in> set (snd ?b)" by (simp add: scenario_b)
  have read_c: "(ReadChannel, Returns ''r1#'') \<in> set (snd ?c)" by (simp add: scenario_c)
  have prompt: "(\<exists>a b. ''Password: '' = a @ ''password'' @ b)
                  \<or> (\<exists>a b. ''Password: '' = a @ ''Password'' @ b)"
    unfolding password_prompt_iff [symmetric] by (simp add: password_prompt_def)
  have no_prompt: "\<not> ((\<exists>a b. ''r1#'' = a @ ''password'' @ b)
                  \<or> (\<exists>a b. ''r1#'' = a @ ''Password'' @ b))"
    unfolding password_prompt_iff [symmetric] by (simp add: password_prompt_def)
  from password_sent_iff_prompted [OF run_b jh read_b] keys
  have b: "\<exists>pre l rep post'.
         snd ?b = pre @ (ReadChannel, Returns ''Password: '')
                 # (LogInfo l, Returns []) # (WriteChannel ''secret\<newline>'', rep) # post'
         \<and> filter is_write (calls pre) = [WriteChannel ''ssh admin@10.0.0.1\<newline>'']
         \<and> filter is_write (calls post') = []"
    unfolding if_P [OF prompt] by auto
  from password_sent_iff_prompted [OF run_c jh read_c] keys
  have c: "\<exists>pre rep post'.
         snd ?c = pre @ (ReadChannel, Returns ''r1#'') # (FindPrompt, rep) # post'
         \<and> filter is_write (calls pre) = [WriteChannel ''ssh admin@10.0.0.1\<newline>'']
         \<and> filter is_write (calls post') = []"
    unfolding if_not_P [OF no_prompt] by auto
  from jh read_b b read_c c show ?thesis by blast
qed

section \<open>Commands in list order\<close>

text \<open>
  Claim C4. When \<^verbatim>\<open>get_device_info\<close> returns a list \<open>outs\<close>, the run is: the events of the
  connection phase, none of them a \<^verbatim>\<open>send_command\<close>; then one \<^verbatim>\<open>send_command\<close> per entry of
  \<^verbatim>\<open>initial_commands\<close>, in list order, whose replies \<open>rs\<close> do not reach the result; then one
  \<^verbatim>\<open>send_command\<close> per entry of \<^verbatim>\<open>show_commands\<close>, in list order, whose replies are exactly
  \<open>outs\<close>, in the same order; then the disconnect and a log line.
\<close>

theorem commands_in_order:
  assumes run: "get_device_info w device dtp jh cred t = (Inr outs, t @ tr)"
  shows "\<exists>ini shw conn rs s l.
           dtp ''initial_commands'' = Some ini \<and> dtp ''show_commands'' = Some shw
           \<and> length rs = length ini \<and> length outs = length shw
           \<and> filter is_send (calls conn) = []
           \<and> tr = conn @ zip (map SendCommand ini) (map Returns rs)
                       @ zip (map SendCommand shw) (map Returns outs)
                       @ [(Disconnect, Returns s), (LogInfo l, Returns [])]"
  using run
proof (cases rule: get_device_info_cases)
  case (connected jhh t1)
  have "emits_only (\<lambda>c. \<not> is_send c) (if jhh \<noteq> [] then connect_via_jumphost w device jh cred
                       else connect_directly w device cred)"
    by (intro connect_phase_emits) simp_all
  from emits_onlyD [OF this connected(2)] obtain conn
    where conn: "t1 = t @ conn" "list_all (\<lambda>c. \<not> is_send c) (calls conn)" .
  from run_commands_done [OF connected(3)] obtain ini shw rs s dh
    where cmds: "dtp ''initial_commands'' = Some ini" "dtp ''show_commands'' = Some shw"
      "length rs = length ini" "length outs = length shw"
      "t @ tr = t1 @ zip (map SendCommand ini) (map Returns rs)
                  @ zip (map SendCommand shw) (map Returns outs)
                  @ [(Disconnect, Returns s), (LogInfo (''Disconnected from '' @ dh), Returns [])]"
    by blast
  from conn(2) have "filter is_send (calls conn) = []"
    by (simp add: list_all_iff filter_empty_conv)
  moreover from conn(1) cmds(5)
  have "tr = conn @ zip (map SendCommand ini) (map Returns rs)
                  @ zip (map SendCommand shw) (map Returns outs)
                  @ [(Disconnect, Returns s), (LogInfo (''Disconnected from '' @ dh), Returns [])]"
    by simp
  ultimately show ?thesis using cmds(1-4) by blast
qed simp_all

theorem commands_in_order_witness:
  "get_device_info world_password_prompt example_device example_commands no_jumphost
     example_credentials [] =
     (Inr [''<show version>'', ''<show ip int brief>''],
      [] @ [(ConnectHandler ''ios'' ''10.0.0.1'' ''admin'' ''secret'', Returns []),
            (FindPrompt, Returns []),
            (LogInfo ''Connected to device  10.0.0.1'', Returns []),
            (SendCommand ''terminal length 0'', Returns ''<terminal length 0>''),
            (SendCommand ''show version'', Returns ''<show version>''),
            (SendCommand ''show ip int brief'', Returns ''<show ip int brief>''),
            (Disconnect, Returns []),
            (LogInfo ''Disconnected from 10.0.0.1'', Returns [])])
   \<and> (\<exists>ini shw conn rs s l.
           example_commands ''initial_commands'' = Some ini
           \<and> example_commands ''show_commands'' = Some shw
           \<and> length rs = length ini
           \<and> length [''<show version>'', ''<show ip int brief>''] = length shw
           \<and> filter is_send (calls conn) = []
           \<and> [(ConnectHandler ''ios'' ''10.0.0.1'' ''admin'' ''secret'', Returns []),
               (FindPrompt, Returns []),
               (LogInfo ''Connected to device  10.0.0.1'', Returns []),
               (SendCommand ''terminal length 0'', Returns ''<terminal length 0>''),
               (SendCommand ''show version'', Returns ''<show version>''),
               (SendCommand ''show ip int brief'', Returns ''<show ip int brief>''),
               (Disconnect, Returns []),
               (LogInfo ''Disconnected from 10.0.0.1'', Returns [])]
             = conn @ zip (map SendCommand ini) (map Returns rs)
                    @ zip (map SendCommand shw)
                        (map Returns [''<show version>'', ''<show ip int brief>''])
                    @ [(Disconnect, Returns s), (LogInfo l, Returns [])])"
proof -
  have run: "get_device_info world_password_prompt example_device example_commands no_jumphost
     example_credentials [] =
     (Inr [''<show version>'', ''<show ip int brief>''],
      [] @ [(ConnectHandler ''ios'' ''10.0.0.1'' ''admin'' ''secret'', Returns []),
            (FindPrompt, Returns []),
            (LogInfo ''Connected to device  10.0.0.1'', Returns []),
            (SendCommand ''terminal length 0'', Returns ''<terminal length 0>''),
            (SendCommand ''show version'', Returns ''<show version>''),
            (SendCommand ''show ip int brief'', Returns ''<show ip int brief>''),
            (Disconnect, Returns []),
            (LogInfo ''Disconnected from 10.0.0.1'', Returns [])])"
    by (simp add: scenario_a)
  from run commands_in_order [OF run] show ?thesis by blast
qed

section \<open>When the session is disconnected\<close>

text \<open>
  Claim C5 says that \<^verbatim>\<open>disconnect\<close> is called exactly once on every path, failures included.
  The function has no \<^verbatim>\<open>try\<close> statement: in the run below the connection is opened, the
  second command raises, and the call ends without a \<^verbatim>\<open>disconnect\<close>.
\<close>

theorem disconnect_on_every_path_counterexample:
  "get_device_info world_command_fails example_device example_commands no_jumphost
     example_credentials [] =
     (Inl (Raised ''ReadTimeout''),
      [(ConnectHandler ''ios'' ''10.0.0.1'' ''admin'' ''secret'', Returns []),
       (FindPrompt, Returns []),
       (LogInfo ''Connected to device  10.0.0.1'', Returns []),
       (SendCommand ''terminal length 0'', Returns ''<terminal length 0>''),
       (SendCommand ''show version'', Raises ''ReadTimeout'')])
   \<and> Disconnect \<notin> set (calls (snd (get_device_info world_command_fails example_device
          example_commands no_jumphost example_credentials [])))"
  by (simp add: run_command_fails calls_def)

text \<open>
  Claim C5, amended. When the call returns its list, \<^verbatim>\<open>disconnect\<close> was called exactly once,
  as the last call before the final log line. When the call fails, \<^verbatim>\<open>disconnect\<close> was not
  called at all, unless it is the \<^verbatim>\<open>disconnect\<close> call itself that raised (then it is the
  last event and the only \<^verbatim>\<open>disconnect\<close>).
\<close>

theorem disconnect_only_after_last_command:
  assumes run: "get_device_info w device dtp jh cred t = (res, t @ tr)"
  shows "(\<forall>outs. res = Inr outs \<longrightarrow>
            (\<exists>pre s l. tr = pre @ [(Disconnect, Returns s), (LogInfo l, Returns [])]
               \<and> Disconnect \<notin> set (calls pre)))
       \<and> (\<forall>e. res = Inl e \<longrightarrow>
            Disconnect \<notin> set (calls tr)
            \<or> (\<exists>pre x. tr = pre @ [(Disconnect, Raises x)] \<and> e = Raised x
                  \<and> Disconnect \<notin> set (calls pre)))"
  using run
proof (cases rule: get_device_info_cases)
  case no_host
  then show ?thesis by (simp add: calls_def)
next
  case (connect_fails jhh e)
  have "emits_only (\<lambda>c. c \<noteq> Disconnect) (if jhh \<noteq> [] then connect_via_jumphost w device jh cred
                       else connect_directly w device cred)"
    by (intro connect_phase_emits) simp_all
  from emits_onlyD [OF this connect_fails(3)] obtain conn
    where "t @ tr = t @ conn" "list_all (\<lambda>c. c \<noteq> Disconnect) (calls conn)" .
  then have "Disconnect \<notin> set (calls tr)" by (auto simp: list_all_iff)
  with connect_fails(2) show ?thesis by simp
next
  case (connected jhh t1)
  have "emits_only (\<lambda>c. c \<noteq> Disconnect) (if jhh \<noteq> [] then connect_via_jumphost w device jh cred
                       else connect_directly w device cred)"
    by (intro connect_phase_emits) simp_all
  from emits_onlyD [OF this connected(2)] obtain conn
    where conn: "t1 = t @ conn" "list_all (\<lambda>c. c \<noteq> Disconnect) (calls conn)" .
  then have noc: "Disconnect \<notin> set (calls conn)" by (auto simp: list_all_iff)
  from connect_phase_done [OF connected(2)] obtain dh where dh: "device ''host'' = Some dh" ..
  show ?thesis
  proof (cases res)
    case (Inr outs)
    with connected(3) have "run_commands w device dtp t1 = (Inr outs, t @ tr)" by simp
    from run_commands_done [OF this] obtain ini shw rs s dh'
      where cmds: "length rs = length ini" "length outs = length shw"
        "t @ tr = t1 @ zip (map SendCommand ini) (map Returns rs)
                  @ zip (map SendCommand shw) (map Returns outs)
                  @ [(Disconnect, Returns s), (LogInfo (''Disconnected from '' @ dh'), Returns [])]"
      by blast
    let ?pre = "conn @ zip (map SendCommand ini) (map Returns rs)
                  @ zip (map SendCommand shw) (map Returns outs)"
    from conn(1) cmds(3)
    have "tr = ?pre @ [(Disconnect, Returns s), (LogInfo (''Disconnected from '' @ dh'), Returns [])]"
      by simp
    moreover from noc cmds(1,2) have "Disconnect \<notin> set (calls ?pre)"
      by (auto simp: calls_append calls_zip_sends)
    ultimately show ?thesis using Inr by blast
  next
    case (Inl e)
    with connected(3) have "run_commands w device dtp t1 = (Inl e, t @ tr)" by simp
    from run_commands_fails [OF this dh] obtain tr2
      where tr2: "t @ tr = t1 @ tr2"
        "Disconnect \<notin> set (calls tr2)
         \<or> (\<exists>pre x. tr2 = pre @ [(Disconnect, Raises x)] \<and> e = Raised x
               \<and> Disconnect \<notin> set (calls pre))" by blast
    from tr2(1) conn(1) have tr: "tr = conn @ tr2" by simp
    from tr2(2) show ?thesis
    proof
      assume "Disconnect \<notin> set (calls tr2)"
      with noc tr have "Disconnect \<notin> set (calls tr)" by (simp add: calls_append)
      with Inl show ?thesis by simp
    next
      assume "\<exists>pre x. tr2 = pre @ [(Disconnect, Raises x)] \<and> e = Raised x
               \<and> Disconnect \<notin> set (calls pre)"
      then obtain pre x where "tr2 = pre @ [(Disconnect, Raises x)]" "e = Raised x"
        "Disconnect \<notin> set (calls pre)" by blast
      with noc tr have "tr = (conn @ pre) @ [(Disconnect, Raises x)] \<and> e = Raised x
          \<and> Disconnect \<notin> set (calls (conn @ pre))" by (simp add: calls_append)
      with Inl show ?thesis by blast
    qed
  qed
qed

theorem disconnect_only_after_last_command_witness:
  "get_device_info world_password_prompt example_device example_commands no_jumphost
     example_credentials [] =
     (Inr [''<show version>'', ''<show ip int brief>''],
      [] @ [(ConnectHandler ''ios'' ''10.0.0.1'' ''admin'' ''secret'', Returns []),
            (FindPrompt, Returns []),
            (LogInfo ''Connected to device  10.0.0.1'', Returns []),
            (SendCommand ''terminal length 0'', Returns ''<terminal length 0>''),
            (SendCommand ''show version'', Returns ''<show version>''),
            (SendCommand ''show ip int brief'', Returns ''<show ip int brief>''),
            (Disconnect, Returns []),
            (LogInfo ''Disconnected from 10.0.0.1'', Returns [])])
   \<and> (\<exists>pre s l.
         [(ConnectHandler ''ios'' ''10.0.0.1'' ''admin'' ''secret'', Returns []),
          (FindPrompt, Returns []),
          (LogInfo ''Connected to device  10.0.0.1'', Returns []),
          (SendCommand ''terminal length 0'', Returns ''<terminal length 0>''),
          (SendCommand ''show version'', Returns ''<show version>''),
          (SendCommand ''show ip int brief'', Returns ''<show ip int brief>''),
          (Disconnect, Returns []),
          (LogInfo ''Disconnected from 10.0.0.1'', Returns [])]
           = pre @ [(Disconnect, Returns s), (LogInfo l, Returns [])]
         \<and> Disconnect \<notin> set (calls pre))
   \<and> get_device_info world_command_fails example_device example_commands no_jumphost
       example_credentials [] =
       (Inl (Raised ''ReadTimeout''),
        [] @ [(ConnectHandler ''ios'' ''10.0.0.1'' ''admin'' ''secret'', Returns []),
              (FindPrompt, Returns []),
              (LogInfo ''Connected to device  10.0.0.1'', Returns []),
              (SendCommand ''terminal length 0'', Returns ''<terminal length 0>''),
              (SendCommand ''show version'', Raises ''ReadTimeout'')])
   \<and> Disconnect \<notin> set (calls
         [(ConnectHandler ''ios'' ''10.0.0.1'' ''admin'' ''secret'', Returns []),
          (FindPrompt, Returns []),
          (LogInfo ''Connected to device  10.0.0.1'', Returns []),
          (SendCommand ''terminal length 0'', Returns ''<terminal length 0>''),
          (SendCommand ''show version'', Raises ''ReadTimeout'')])"
proof -
  have ok: "get_device_info world_password_prompt example_device example_commands no_jumphost
     example_credentials [] =
     (Inr [''<show version>'', ''<show ip int brief>''],
      [] @ [(ConnectHandler ''ios'' ''10.0.0.1'' ''admin'' ''secret'', Returns []),
            (FindPrompt, Returns []),
            (LogInfo ''Connected to device  10.0.0.1'', Returns []),
            (SendCommand ''terminal length 0'', Returns ''<terminal length 0>''),
            (SendCommand ''show version'', Returns ''<show version>''),
            (SendCommand ''show ip int brief'', Returns ''<show ip int brief>''),
            (Disconnect, Returns []),
            (LogInfo ''Disconnected from 10.0.0.1'', Returns [])])"
    by (simp add: scenario_a)
  have fails: "get_device_info world_command_fails example_device example_commands no_jumphost
       example_credentials [] =
       (Inl (Raised ''ReadTimeout''),
        [] @ [(ConnectHandler ''ios'' ''10.0.0.1'' ''admin'' ''secret'', Returns []),
              (FindPrompt, Returns []),
              (LogInfo ''Connected to device  10.0.0.1'', Returns []),
              (SendCommand ''terminal length 0'', Returns ''<terminal length 0>''),
              (SendCommand ''show version'', Raises ''ReadTimeout'')])"
    by (simp add: run_command_fails)
  from disconnect_only_after_last_command [OF ok]
  have once: "\<exists>pre s l.
         [(ConnectHandler ''ios'' ''10.0.0.1'' ''admin'' ''secret'', Returns []),
          (FindPrompt, Returns []),
          (LogInfo ''Connected to device  10.0.0.1'', Returns []),
          (SendCommand ''terminal length 0'', Returns ''<terminal length 0>''),
          (SendCommand ''show version'', Returns ''<show version>''),
          (SendCommand ''show ip int brief'', Returns ''<show ip int brief>''),
          (Disconnect, Returns []),
          (LogInfo ''Disconnected from 10.0.0.1'', Returns [])]
           = pre @ [(Disconnect, Returns s), (LogInfo l, Returns [])]
         \<and> Disconnect \<notin> set (calls pre)" by blast
  from disconnect_only_after_last_command [OF fails]
  have never: "Disconnect \<notin> set (calls
         [(ConnectHandler ''ios'' ''10.0.0.1'' ''admin'' ''secret'', Returns []),
          (FindPrompt, Returns []),
          (LogInfo ''Connected to device  10.0.0.1'', Returns []),
          (SendCommand ''terminal length 0'', Returns ''<terminal length 0>''),
          (SendCommand ''show version'', Raises ''ReadTimeout'')])"
    by auto
  from ok once fails never show ?thesis by blast
qed

section \<open>All or nothing\<close>

text \<open>
  Claim C6. Whatever call raises during \<^verbatim>\<open>get_device_info\<close> (the connection, the relay, an
  initial command, a show command, the disconnect), the whole call fails with that exception;
  and when the call returns a list, the list has exactly one entry per show command. A
  failed call returns no list at all: its result is the exception.
\<close>

theorem all_or_nothing:
  assumes run: "get_device_info w device dtp jh cred t = (res, t @ tr)"
  shows "(\<forall>c x. (c, Raises x) \<in> set tr \<longrightarrow> res = Inl (Raised x))
       \<and> (\<forall>outs. res = Inr outs \<longrightarrow>
            (\<exists>shw. dtp ''show_commands'' = Some shw \<and> length outs = length shw))"
proof
  from raise_is_finalD [OF get_device_info_raise_is_final run]
  show "\<forall>c x. (c, Raises x) \<in> set tr \<longrightarrow> res = Inl (Raised x)" by auto
next
  show "\<forall>outs. res = Inr outs \<longrightarrow>
          (\<exists>shw. dtp ''show_commands'' = Some shw \<and> length outs = length shw)"
  proof (intro allI impI)
    fix outs assume "res = Inr outs"
    with run show "\<exists>shw. dtp ''show_commands'' = Some shw \<and> length outs = length shw"
    proof (cases rule: get_device_info_cases)
      case (connected jhh t1)
      with \<open>res = Inr outs\<close> have "run_commands w device dtp t1 = (Inr outs, t @ tr)" by simp
      from run_commands_done [OF this] show ?thesis by blast
    qed simp_all
  qed
qed

theorem all_or_nothing_witness:
  "get_device_info world_command_fails example_device example_commands no_jumphost
     example_credentials [] =
     (Inl (Raised ''ReadTimeout''),
      [] @ [(ConnectHandler ''ios'' ''10.0.0.1'' ''admin'' ''secret'', Returns []),
            (FindPrompt, Returns []),
            (LogInfo ''Connected to device  10.0.0.1'', Returns []),
            (SendCommand ''terminal length 0'', Returns ''<terminal length 0>''),
            (SendCommand ''show version'', Raises ''ReadTimeout'')])
   \<and> fst (get_device_info world_password_prompt example_device example_commands no_jumphost
            example_credentials []) = Inr [''<show version>'', ''<show ip int brief>'']
   \<and> (\<exists>shw. example_commands ''show_commands'' = Some shw
          \<and> length [''<show version>'', ''<show ip int brief>''] = length shw)"
proof -
  have fails: "get_device_info world_command_fails example_device example_commands no_jumphost
     example_credentials [] =
     (Inl (Raised ''ReadTimeout''),
      [] @ [(ConnectHandler ''ios'' ''10.0.0.1'' ''admin'' ''secret'', Returns []),
            (FindPrompt, Returns []),
            (LogInfo ''Connected to device  10.0.0.1'', Returns []),
            (SendCommand ''terminal length 0'', Returns ''<terminal length 0>''),
            (SendCommand ''show version'', Raises ''ReadTimeout'')])"
    by (simp add: run_command_fails)
  have ok: "get_device_info world_password_prompt example_device example_commands no_jumphost
     example_credentials [] = (Inr [''<show version>'', ''<show ip int brief>''],
       [] @ snd (get_device_info world_password_prompt example_device example_commands no_jumphost
     example_credentials []))"
    by (simp add: scenario_a)
  from all_or_nothing [OF ok]
  have entries: "\<exists>shw. example_commands ''show_commands'' = Some shw
          \<and> length [''<show version>'', ''<show ip int brief>''] = length shw" by blast
  have "fst (get_device_info world_password_prompt example_device example_commands no_jumphost
            example_credentials []) = Inr [''<show version>'', ''<show ip int brief>'']"
    by (simp add: scenario_a)
  with fails entries show ?thesis by blast
qed

section \<open>The jump host cannot be opened\<close>

text \<open>
  Claim C7. On the relayed path, when \<^verbatim>\<open>ConnectHandler\<close> for the jump host raises,
  \<^verbatim>\<open>get_device_info\<close> fails with that very exception, and the whole run consists of the
  debug log line and the failed connection attempt: no connection to the device is
  attempted, and \<^verbatim>\<open>disconnect\<close> is not called.
\<close>

theorem jumphost_unreachable:
  assumes "jh ''host'' = Some jhh" "jhh \<noteq> []" "jh ''device_type'' = Some jt"
    and "jh ''username'' = Some ju" "jh ''password'' = Some jp"
    and "w (t @ [(LogDebug ''Jumphost parameters are filled so use jumphost to connect to device'', Returns [])])
           (ConnectHandler jt jhh ju jp) = Raises x"
  shows "get_device_info w device dtp jh cred t =
           (Inl (Raised x),
            t @ [(LogDebug ''Jumphost parameters are filled so use jumphost to connect to device'', Returns []),
                 (ConnectHandler jt jhh ju jp, Raises x)])"
  using assms
  by (simp add: get_device_info_def connect_via_jumphost_def open_jumphost_def
        io_bind_apply getitem_apply perform_apply)

theorem jumphost_unreachable_witness:
  "example_jumphost ''host'' = Some ''jump'' \<and> ''jump'' \<noteq> []
   \<and> example_jumphost ''device_type'' = Some ''linux''
   \<and> example_jumphost ''username'' = Some ''op'' \<and> example_jumphost ''password'' = Some ''pw''
   \<and> world_jumphost_down
        ([] @ [(LogDebug ''Jumphost parameters are filled so use jumphost to connect to device'', Returns [])])
        (ConnectHandler ''linux'' ''jump'' ''op'' ''pw'') = Raises ''NetmikoTimeoutException''
   \<and> get_device_info world_jumphost_down example_device example_commands example_jumphost
        example_credentials [] =
         (Inl (Raised ''NetmikoTimeoutException''),
          [(LogDebug ''Jumphost parameters are filled so use jumphost to connect to device'', Returns []),
           (ConnectHandler ''linux'' ''jump'' ''op'' ''pw'', Raises ''NetmikoTimeoutException'')])"
  using jumphost_unreachable [of example_jumphost "''jump''" "''linux''" "''op''" "''pw''"
      world_jumphost_down "[]" "''NetmikoTimeoutException''" example_device example_commands
      example_credentials]
  by (simp add: example_jumphost_def world_jumphost_down_def)

section \<open>The ssh command, one sleep, one read\<close>

text \<open>
  Claim C8. Once the jump host's session is open and its prompt found, the next call writes
  \<^verbatim>\<open>ssh <username>@<host>\<close> and a newline to the channel. If that write returns, the call
  sleeps one second and reads the channel; the channel is not read again. What is written
  after the read is a function of the text read alone (and of the password entry): the
  password line if the text holds a password prompt, nothing otherwise, whatever the world
  answers later. In the witness the prompt arrives after the read, and no password is sent.
\<close>

theorem relay_command_then_one_read:
  assumes run: "get_device_info w device dtp jh cred t = (res, t @ tr)"
    and jh: "jh ''host'' = Some jhh" "jhh \<noteq> []"
    and keys: "jh ''device_type'' = Some jt" "jh ''username'' = Some ju" "jh ''password'' = Some jp"
      "device ''host'' = Some dh" "cred ''username'' = Some du"
    and connected:
      "w (t @ [(LogDebug ''Jumphost parameters are filled so use jumphost to connect to device'', Returns [])])
         (ConnectHandler jt jhh ju jp) = Returns s1"
      "w (t @ [(LogDebug ''Jumphost parameters are filled so use jumphost to connect to device'', Returns []),
               (ConnectHandler jt jhh ju jp, Returns s1)]) FindPrompt = Returns s2"
  shows "\<exists>rep rest.
           tr = [(LogDebug ''Jumphost parameters are filled so use jumphost to connect to device'', Returns []),
                 (ConnectHandler jt jhh ju jp, Returns s1), (FindPrompt, Returns s2),
                 (LogInfo (''Connected to jumphost '' @ jhh @ '' for device '' @ dh), Returns []),
                 (WriteChannel (''ssh '' @ du @ ''@'' @ dh @ ''\<newline>''), rep)] @ rest
           \<and> ((\<exists>x. rep = Raises x \<and> rest = [] \<and> res = Inl (Raised x))
              \<or> (\<exists>s x. rep = Returns s
                    \<and> rest = [(Sleep 1, Returns []), (ReadChannel, Raises x)] \<and> res = Inl (Raised x))
              \<or> (\<exists>s out rest'. rep = Returns s
                    \<and> rest = [(Sleep 1, Returns []), (ReadChannel, Returns out)] @ rest'
                    \<and> ReadChannel \<notin> set (calls rest')
                    \<and> filter is_write (calls rest') =
                        (if password_prompt out
                         then (case cred ''password'' of
                                 None \<Rightarrow> [] | Some dp \<Rightarrow> [WriteChannel (dp @ ''\<newline>'')])
                         else [])))"
proof -
  let ?t1 = "t @ [(LogDebug ''Jumphost parameters are filled so use jumphost to connect to device'', Returns []),
                 (ConnectHandler jt jhh ju jp, Returns s1), (FindPrompt, Returns s2),
                 (LogInfo (''Connected to jumphost '' @ jhh @ '' for device '' @ dh), Returns [])]"
  let ?ssh = "WriteChannel (''ssh '' @ du @ ''@'' @ dh @ ''\<newline>'')"
  have opened: "open_jumphost w device jh t = (Inr (), ?t1)"
    using jh keys connected by (simp add: open_jumphost_def io_simps)
  from run have rest: "io_bind (start_relay w device cred) (\<lambda>out.
           io_bind (answer_password_prompt w device cred out) (\<lambda>_.
           io_bind (rebind_profile w device) (\<lambda>_.
           run_commands w device dtp))) ?t1 = (res, t @ tr)"
    by (simp add: relayed_call [of jh jhh, OF jh] io_bind_apply [of "open_jumphost w device jh"] opened)
  show ?thesis
  proof (cases "w ?t1 ?ssh")
    case (Raises x)
    with keys have "start_relay w device cred ?t1 = (Inl (Raised x), ?t1 @ [(?ssh, Raises x)])"
      by (simp add: start_relay_def io_simps)
    with rest have "res = Inl (Raised x)" "t @ tr = ?t1 @ [(?ssh, Raises x)]"
      by (simp_all add: io_bind_apply [of "start_relay w device cred"])
    with Raises show ?thesis by simp
  next
    case written: (Returns s)
    let ?t2 = "?t1 @ [(?ssh, Returns s), (Sleep 1, Returns [])]"
    show ?thesis
    proof (cases "w ?t2 ReadChannel")
      case (Raises x)
      with keys written
      have "start_relay w device cred ?t1 = (Inl (Raised x), ?t2 @ [(ReadChannel, Raises x)])"
        by (simp add: start_relay_def io_simps)
      with rest have "res = Inl (Raised x)" "t @ tr = ?t2 @ [(ReadChannel, Raises x)]"
        by (simp_all add: io_bind_apply [of "start_relay w device cred"])
      with written show ?thesis by simp
    next
      case (Returns out)
      with keys written have "start_relay w device cred ?t1 = (Inr out, ?t2 @ [(ReadChannel, Returns out)])"
        by (simp add: start_relay_def io_simps)
      with rest have "io_bind (answer_password_prompt w device cred out) (\<lambda>_.
           io_bind (rebind_profile w device) (\<lambda>_.
           run_commands w device dtp)) (?t2 @ [(ReadChannel, Returns out)]) = (res, t @ tr)"
        by (simp add: io_bind_apply [of "start_relay w device cred"])
      from after_read_writes [OF this keys(4)] obtain rest'
        where "t @ tr = (?t2 @ [(ReadChannel, Returns out)]) @ rest'"
          "ReadChannel \<notin> set (calls rest')"
          "filter is_write (calls rest') =
               (if password_prompt out
                then (case cred ''password'' of None \<Rightarrow> [] | Some dp \<Rightarrow> [WriteChannel (dp @ ''\<newline>'')])
                else [])"
        by blast
      with written show ?thesis by simp
    qed
  qed
qed

theorem relay_command_then_one_read_witness:
  "example_jumphost ''host'' = Some ''jump'' \<and> ''jump'' \<noteq> []
   \<and> example_jumphost ''device_type'' = Some ''linux''
   \<and> example_jumphost ''username'' = Some ''op'' \<and> example_jumphost ''password'' = Some ''pw''
   \<and> example_device ''host'' = Some ''10.0.0.1''
   \<and> example_credentials ''username'' = Some ''admin''
   \<and> world_late_prompt
        ([] @ [(LogDebug ''Jumphost parameters are filled so use jumphost to connect to device'', Returns [])])
        (ConnectHandler ''linux'' ''jump'' ''op'' ''pw'') = Returns []
   \<and> world_late_prompt
        ([] @ [(LogDebug ''Jumphost parameters are filled so use jumphost to connect to device'', Returns []),
               (ConnectHandler ''linux'' ''jump'' ''op'' ''pw'', Returns [])])
        FindPrompt = Returns ''jump> ''
   \<and> get_device_info world_late_prompt example_device example_commands example_jumphost
        example_credentials [] =
       (Inl (Raised ''NetmikoTimeoutException''),
        [] @ [(LogDebug ''Jumphost parameters are filled so use jumphost to connect to device'', Returns []),
              (ConnectHandler ''linux'' ''jump'' ''op'' ''pw'', Returns []),
              (FindPrompt, Returns ''jump> ''),
              (LogInfo ''Connected to jumphost jump for device 10.0.0.1'', Returns []),
              (WriteChannel ''ssh admin@10.0.0.1\<newline>'', Returns []),
              (Sleep 1, Returns []),
              (ReadChannel, Returns []),
              (FindPrompt, Returns ''Password: ''),
              (Redispatch ''ios'', Raises ''NetmikoTimeoutException'')])
   \<and> (\<exists>rest'.
         [(LogDebug ''Jumphost parameters are filled so use jumphost to connect to device'', Returns []),
          (ConnectHandler ''linux'' ''jump'' ''op'' ''pw'', Returns []),
          (FindPrompt, Returns ''jump> ''),
          (LogInfo ''Connected to jumphost jump for device 10.0.0.1'', Returns []),
          (WriteChannel ''ssh admin@10.0.0.1\<newline>'', Returns []),
          (Sleep 1, Returns []),
          (ReadChannel, Returns []),
          (FindPrompt, Returns ''Password: ''),
          (Redispatch ''ios'', Raises ''NetmikoTimeoutException'')]
         = [(LogDebug ''Jumphost parameters are filled so use jumphost to connect to device'', Returns []),
            (ConnectHandler ''linux'' ''jump'' ''op'' ''pw'', Returns []),
            (FindPrompt, Returns ''jump> ''),
            (LogInfo ''Connected to jumphost jump for device 10.0.0.1'', Returns []),
            (WriteChannel ''ssh admin@10.0.0.1\<newline>'', Returns []),
            (Sleep 1, Returns []),
            (ReadChannel, Returns [])] @ rest'
         \<and> ReadChannel \<notin> set (calls rest') \<and> filter is_write (calls rest') = [])"
proof -
  let ?log = "(LogDebug ''Jumphost parameters are filled so use jumphost to connect to device'', Returns [])"
  let ?open = "(ConnectHandler ''linux'' ''jump'' ''op'' ''pw'', Returns [])"
  have jh: "example_jumphost ''host'' = Some ''jump''" "''jump'' \<noteq> []"
    and keys: "example_jumphost ''device_type'' = Some ''linux''"
      "example_jumphost ''username'' = Some ''op''" "example_jumphost ''password'' = Some ''pw''"
      "example_device ''host'' = Some ''10.0.0.1''"
      "example_credentials ''username'' = Some ''admin''"
    by (simp_all add: example_defs)
  have connected:
    "world_late_prompt ([] @ [?log]) (ConnectHandler ''linux'' ''jump'' ''op'' ''pw'') = Returns []"
    "world_late_prompt ([] @ [?log, ?open]) FindPrompt = Returns ''jump> ''"
    by (simp_all add: world_late_prompt_def calls_def)
  have run: "get_device_info world_late_prompt example_device example_commands example_jumphost
        example_credentials [] =
       (Inl (Raised ''NetmikoTimeoutException''),
        [] @ [?log, ?open,
              (FindPrompt, Returns ''jump> ''),
              (LogInfo ''Connected to jumphost jump for device 10.0.0.1'', Returns []),
              (WriteChannel ''ssh admin@10.0.0.1\<newline>'', Returns []),
              (Sleep 1, Returns []),
              (ReadChannel, Returns []),
              (FindPrompt, Returns ''Password: ''),
              (Redispatch ''ios'', Raises ''NetmikoTimeoutException'')])"
    by (simp add: run_late_prompt)
  have quiet: "\<not> password_prompt []" by (simp add: password_prompt_def)
  from relay_command_then_one_read [OF run jh keys connected] quiet
  have "\<exists>rest'.
         [?log, ?open,
          (FindPrompt, Returns ''jump> ''),
          (LogInfo ''Connected to jumphost jump for device 10.0.0.1'', Returns []),
          (WriteChannel ''ssh admin@10.0.0.1\<newline>'', Returns []),
          (Sleep 1, Returns []),
          (ReadChannel, Returns []),
          (FindPrompt, Returns ''Password: ''),
          (Redispatch ''ios'', Raises ''NetmikoTimeoutException'')]
         = [?log, ?open,
            (FindPrompt, Returns ''jump> ''),
            (LogInfo ''Connected to jumphost jump for device 10.0.0.1'', Returns []),
            (WriteChannel ''ssh admin@10.0.0.1\<newline>'', Returns []),
            (Sleep 1, Returns []),
            (ReadChannel, Returns [])] @ rest'
         \<and> ReadChannel \<notin> set (calls rest') \<and> filter is_write (calls rest') = []"
    by auto
  with jh keys connected run show ?thesis by blast
qed

section \<open>A failing device in the device loop\<close>

text \<open>
  Claim C9 says that main logs the failure of one device and goes on with the next. The
  loop has no \<^verbatim>\<open>try\<close> statement. In the run below the first device cannot be reached: the
  run ends with that exception after closing the first device's file, and the second device,
  which this world would answer, is never contacted.
\<close>

theorem main_continues_after_failure_counterexample:
  "main_loop world_first_device_down example_type_parameters no_jumphost example_credentials
     [example_device, second_device] [] =
     (Inl (Raised ''NetmikoTimeoutException''),
      [(Strftime ''%Y-%m-%d_%H%M%S'', Returns ''2022-05-01_120000''),
       (OpenFile ''r1_2022-05-01_120000.txt'' ''w'', Returns []),
       (ConnectHandler ''ios'' ''10.0.0.1'' ''admin'' ''secret'', Raises ''NetmikoTimeoutException''),
       (CloseFile, Returns [])])
   \<and> fst (main_loop world_first_device_down example_type_parameters no_jumphost
            example_credentials [second_device] []) = Inr ()"
  by (simp add: main_loop_body_def with_file_def block_defs io_bind_apply getitem_apply
        perform_apply example_defs second_device_def example_type_parameters_def
        world_first_device_down_def)

text \<open>
  Claim C9, amended. When the devices before have been processed and \<^verbatim>\<open>get_device_info\<close>
  fails for a device, the \<^verbatim>\<open>with\<close> statement closes that device's output file and the
  exception leaves the loop: the run of main ends there with the exception (or with the one
  raised by closing the file), whatever devices remain.
\<close>

theorem failed_device_ends_the_run:
  assumes before: "main_loop w dtps jh cred before t = (Inr (), t1)"
    and keys: "device ''type'' = Some dt" "dtps dt = Some dtp" "device ''hostname'' = Some hn"
    and clock: "w t1 (Strftime ''%Y-%m-%d_%H%M%S'') = Returns ct"
    and opened: "w (t1 @ [(Strftime ''%Y-%m-%d_%H%M%S'', Returns ct)])
           (OpenFile (hn @ ''_'' @ ct @ ''.txt'') ''w'') = Returns f"
    and fails: "get_device_info w device dtp jh cred
                  (t1 @ [(Strftime ''%Y-%m-%d_%H%M%S'', Returns ct),
                         (OpenFile (hn @ ''_'' @ ct @ ''.txt'') ''w'', Returns f)]) = (Inl e, t2)"
  shows "main_loop w dtps jh cred (before @ device # after) t =
           (Inl (case w t2 CloseFile of Raises x \<Rightarrow> Raised x | Returns _ \<Rightarrow> e),
            t2 @ [(CloseFile, w t2 CloseFile)])"
proof -
  from fails have "with_file w (io_bind (get_device_info w device dtp jh cred) (write_outputs w))
             (t1 @ [(Strftime ''%Y-%m-%d_%H%M%S'', Returns ct),
                    (OpenFile (hn @ ''_'' @ ct @ ''.txt'') ''w'', Returns f)]) =
           (Inl (case w t2 CloseFile of Raises x \<Rightarrow> Raised x | Returns _ \<Rightarrow> e),
            t2 @ [(CloseFile, w t2 CloseFile)])"
    by (simp add: with_file_result io_bind_apply split: reply.splits)
  with main_loop_body_opened [where device = device and dtps = dtps and w = w and t = t1,
      OF keys clock opened]
  have "main_loop_body w dtps jh cred device t1 =
           (Inl (case w t2 CloseFile of Raises x \<Rightarrow> Raised x | Returns _ \<Rightarrow> e),
            t2 @ [(CloseFile, w t2 CloseFile)])"
    by simp
  with before show ?thesis by (simp add: main_loop_append)
qed

theorem failed_device_ends_the_run_witness:
  "main_loop world_first_device_down example_type_parameters no_jumphost example_credentials [] []
     = (Inr (), [])
   \<and> example_device ''type'' = Some ''ios'' \<and> example_type_parameters ''ios'' = Some example_commands
   \<and> example_device ''hostname'' = Some ''r1''
   \<and> world_first_device_down [] (Strftime ''%Y-%m-%d_%H%M%S'') = Returns ''2022-05-01_120000''
   \<and> world_first_device_down ([] @ [(Strftime ''%Y-%m-%d_%H%M%S'', Returns ''2022-05-01_120000'')])
        (OpenFile (''r1'' @ ''_'' @ ''2022-05-01_120000'' @ ''.txt'') ''w'') = Returns []
   \<and> get_device_info world_first_device_down example_device example_commands no_jumphost
        example_credentials
        ([] @ [(Strftime ''%Y-%m-%d_%H%M%S'', Returns ''2022-05-01_120000''),
               (OpenFile (''r1'' @ ''_'' @ ''2022-05-01_120000'' @ ''.txt'') ''w'', Returns [])])
       = (Inl (Raised ''NetmikoTimeoutException''),
          [(Strftime ''%Y-%m-%d_%H%M%S'', Returns ''2022-05-01_120000''),
           (OpenFile ''r1_2022-05-01_120000.txt'' ''w'', Returns []),
           (ConnectHandler ''ios'' ''10.0.0.1'' ''admin'' ''secret'', Raises ''NetmikoTimeoutException'')])
   \<and> main_loop world_first_device_down example_type_parameters no_jumphost example_credentials
        ([] @ example_device # [second_device]) []
       = (Inl (Raised ''NetmikoTimeoutException''),
          [(Strftime ''%Y-%m-%d_%H%M%S'', Returns ''2022-05-01_120000''),
           (OpenFile ''r1_2022-05-01_120000.txt'' ''w'', Returns []),
           (ConnectHandler ''ios'' ''10.0.0.1'' ''admin'' ''secret'', Raises ''NetmikoTimeoutException''),
           (CloseFile, Returns [])])"
proof -
  let ?w = world_first_device_down
  let ?clock = "(Strftime ''%Y-%m-%d_%H%M%S'', Returns ''2022-05-01_120000'')"
  let ?open = "(OpenFile (''r1'' @ ''_'' @ ''2022-05-01_120000'' @ ''.txt'') ''w'', Returns [])"
  let ?t2 = "[?clock, (OpenFile ''r1_2022-05-01_120000.txt'' ''w'', Returns []),
           (ConnectHandler ''ios'' ''10.0.0.1'' ''admin'' ''secret'', Raises ''NetmikoTimeoutException'')]"
  have before: "main_loop ?w example_type_parameters no_jumphost example_credentials [] [] = (Inr (), [])"
    by simp
  have keys: "example_device ''type'' = Some ''ios''"
    "example_type_parameters ''ios'' = Some example_commands"
    "example_device ''hostname'' = Some ''r1''"
    by (simp_all add: example_defs example_type_parameters_def)
  have clock: "?w [] (Strftime ''%Y-%m-%d_%H%M%S'') = Returns ''2022-05-01_120000''"
    by (simp add: world_first_device_down_def)
  have opened: "?w ([] @ [?clock]) (OpenFile (''r1'' @ ''_'' @ ''2022-05-01_120000'' @ ''.txt'') ''w'')
                  = Returns []"
    by (simp add: world_first_device_down_def)
  have fails: "get_device_info ?w example_device example_commands no_jumphost example_credentials
                 ([] @ [?clock, ?open]) = (Inl (Raised ''NetmikoTimeoutException''), ?t2)"
    by (simp add: block_defs io_bind_apply getitem_apply perform_apply example_defs
          world_first_device_down_def)
  have close: "?w ?t2 CloseFile = Returns []" by (simp add: world_first_device_down_def)
  from failed_device_ends_the_run [of ?w example_type_parameters no_jumphost example_credentials
      "[]" "[]" "[]" example_device "''ios''" example_commands "''r1''" "''2022-05-01_120000''" "[]"
      "Raised ''NetmikoTimeoutException''" ?t2 "[second_device]", OF before keys clock opened fails]
  have "main_loop ?w example_type_parameters no_jumphost example_credentials
        ([] @ example_device # [second_device]) []
       = (Inl (Raised ''NetmikoTimeoutException''), ?t2 @ [(CloseFile, Returns [])])"
    by (simp add: close)
  with before keys clock opened fails show ?thesis by simp
qed

section \<open>The output file is opened before the device is contacted\<close>




end
